theory Spec2Isabelle
  imports Main "HOL-Library.Log_Nat"
begin

section \<open>Python strings\<close>

text \<open>
  A Python \<open>str\<close> is modelled as a \<open>string\<close>: a character is a code point below 256
  (Latin-1). On these code points \<open>is_space\<close> is \<open>str.isspace\<close> (the class \<open>\s\<close> and the
  characters that \<open>str.strip\<close> removes), \<open>is_word\<close> is the class \<open>\w\<close>, \<open>lower\<close> is
  \<open>str.lower\<close> and \<open>capitalize\<close> is \<open>str.capitalize\<close>, which puts the first character in
  title case (\<open>U+00DF\<close> becomes \<open>Ss\<close>) and the others in lower case. The title case of
  \<open>U+00B5\<close> and of \<open>U+00FF\<close> lies above 255; \<open>title_char\<close> leaves these two unchanged.
  \<open>is_upper\<close>, \<open>is_lower\<close> and \<open>is_digit\<close> are the classes \<open>[A-Z]\<close>, \<open>[a-z]\<close> and \<open>\d\<close>.
\<close>

definition is_upper :: "char \<Rightarrow> bool" where
  "is_upper c = (let n = (of_char c :: nat) in 65 \<le> n \<and> n \<le> 90)"

definition is_lower :: "char \<Rightarrow> bool" where
  "is_lower c = (let n = (of_char c :: nat) in 97 \<le> n \<and> n \<le> 122)"

definition is_digit :: "char \<Rightarrow> bool" where
  "is_digit c = (let n = (of_char c :: nat) in 48 \<le> n \<and> n \<le> 57)"

definition is_space :: "char \<Rightarrow> bool" where
  "is_space c =
     (let n = (of_char c :: nat)
      in (9 \<le> n \<and> n \<le> 13) \<or> (28 \<le> n \<and> n \<le> 32) \<or> n = 133 \<or> n = 160)"

text \<open>The letters and numbers of the upper half of Latin-1, and its two ranges of cased letters.\<close>

definition latin1_alnum :: "char \<Rightarrow> bool" where
  "latin1_alnum c =
     (let n = (of_char c :: nat)
      in n = 170 \<or> n = 178 \<or> n = 179 \<or> n = 181 \<or> n = 185 \<or> n = 186 \<or> n = 188 \<or> n = 189
         \<or> n = 190 \<or> (192 \<le> n \<and> n \<le> 214) \<or> (216 \<le> n \<and> n \<le> 246) \<or> 248 \<le> n)"

definition latin1_upper :: "char \<Rightarrow> bool" where
  "latin1_upper c = (let n = (of_char c :: nat) in (192 \<le> n \<and> n \<le> 214) \<or> (216 \<le> n \<and> n \<le> 222))"

definition latin1_lower :: "char \<Rightarrow> bool" where
  "latin1_lower c = (let n = (of_char c :: nat) in (224 \<le> n \<and> n \<le> 246) \<or> (248 \<le> n \<and> n \<le> 254))"

definition is_word :: "char \<Rightarrow> bool" where
  "is_word c = (is_upper c \<or> is_lower c \<or> is_digit c \<or> c = CHR ''_'' \<or> latin1_alnum c)"

definition lower_char :: "char \<Rightarrow> char" where
  "lower_char c = (if is_upper c \<or> latin1_upper c then char_of (of_char c + (32::nat)) else c)"

definition title_char :: "char \<Rightarrow> string" where
  "title_char c =
     (if is_lower c \<or> latin1_lower c then [char_of (of_char c - (32::nat))]
      else if c = CHR 0xDF then ''Ss''
      else [c])"

definition lower :: "string \<Rightarrow> string" where
  "lower s = map lower_char s"

definition strip :: "string \<Rightarrow> string" where
  "strip s = rev (dropWhile is_space (rev (dropWhile is_space s)))"

definition capitalize :: "string \<Rightarrow> string" where
  "capitalize s = (case s of [] \<Rightarrow> [] | c # cs \<Rightarrow> title_char c @ lower cs)"

fun starts_with :: "string \<Rightarrow> string \<Rightarrow> bool" where
  "starts_with [] s = True"
| "starts_with (k # ks) [] = False"
| "starts_with (k # ks) (c # cs) = (k = c \<and> starts_with ks cs)"

text \<open>\<open>contains k s\<close> is Python's \<open>k in s\<close> on strings.\<close>

fun contains :: "string \<Rightarrow> string \<Rightarrow> bool" where
  "contains k [] = (k = [])"
| "contains k (c # cs) = (starts_with k (c # cs) \<or> contains k cs)"

text \<open>\<open>int(s)\<close> on a string of decimal digits, and \<open>str(n)\<close> on an integer.\<close>

definition digit_val :: "char \<Rightarrow> nat" where
  "digit_val c = of_char c - 48"

definition int_of_digits :: "string \<Rightarrow> nat" where
  "int_of_digits s = foldl (\<lambda>acc c. 10 * acc + digit_val c) 0 s"

fun str_nat :: "nat \<Rightarrow> string" where
  "str_nat n = (if n < 10 then [char_of (48 + n)] else str_nat (n div 10) @ [char_of (48 + n mod 10)])"

declare str_nat.simps [simp del]

definition str_int :: "int \<Rightarrow> string" where
  "str_int i = (if i < 0 then CHR ''-'' # str_nat (nat (- i)) else str_nat (nat i))"

section \<open>Regular expressions\<close>

text \<open>
  The patterns of the analyzer are values of \<open>rx\<close>; \<open>rx_match\<close> is a backtracking matcher
  that lists the ways a pattern matches at one position in the order in which Python's
  \<open>re\<close> tries them (the left alternative first, one more repetition before stopping), so
  that the head of the list is the match \<open>re\<close> reports. A matcher state is the character
  before the position (for \<open>\b\<close>), the text from the position on and the text of the
  capture group, if one has been closed.
\<close>

datatype rx =
    Cls "char \<Rightarrow> bool"
  | Eps
  | Seq rx rx
  | Alt rx rx
  | Rep nat "nat option" rx
  | WordB
  | Grp rx

type_synonym mstate = "char option \<times> string \<times> string option"

function many :: "(mstate \<Rightarrow> mstate list) \<Rightarrow> nat \<Rightarrow> nat option \<Rightarrow> mstate \<Rightarrow> mstate list" where
  "many f lo hi st =
     (if hi = Some 0 then [st]
      else concat (map (\<lambda>t. many f (lo - 1) (map_option (\<lambda>h. h - 1) hi) t)
                    (filter (\<lambda>t. length (fst (snd t)) < length (fst (snd st))) (f st)))
           @ (if lo = 0 then [st] else []))"
  by pat_completeness auto
termination
  by (relation "measure (\<lambda>(f, lo, hi, st). length (fst (snd st)))") auto

declare many.simps [simp del]

definition boundary :: "char option \<Rightarrow> string \<Rightarrow> bool" where
  "boundary p s =
     ((case p of None \<Rightarrow> False | Some c \<Rightarrow> is_word c) \<noteq> (case s of [] \<Rightarrow> False | c # _ \<Rightarrow> is_word c))"

fun rx_match :: "rx \<Rightarrow> mstate \<Rightarrow> mstate list" where
  "rx_match (Cls P) (p, s, c) =
     (case s of [] \<Rightarrow> [] | x # xs \<Rightarrow> if P x then [(Some x, xs, c)] else [])"
| "rx_match Eps st = [st]"
| "rx_match (Seq a b) st = concat (map (\<lambda>t. rx_match b t) (rx_match a st))"
| "rx_match (Alt a b) st = rx_match a st @ rx_match b st"
| "rx_match (Rep lo hi r) st = many (\<lambda>t. rx_match r t) lo hi st"
| "rx_match WordB (p, s, c) = (if boundary p s then [(p, s, c)] else [])"
| "rx_match (Grp r) (p, s, c) =
     map (\<lambda>(p', s', c'). (p', s', Some (take (length s - length s') s))) (rx_match r (p, s, c))"

text \<open>A literal, as \<open>re.escape\<close> gives it, read exactly or under \<open>re.IGNORECASE\<close>.\<close>

fun lit :: "string \<Rightarrow> rx" where
  "lit [] = Eps"
| "lit (c # cs) = Seq (Cls (\<lambda>x. x = c)) (lit cs)"

fun lit_i :: "string \<Rightarrow> rx" where
  "lit_i [] = Eps"
| "lit_i (c # cs) = Seq (Cls (\<lambda>x. lower_char x = lower_char c)) (lit_i cs)"

fun seqs :: "rx list \<Rightarrow> rx" where
  "seqs [] = Eps"
| "seqs [r] = r"
| "seqs (r # rs) = Seq r (seqs rs)"

fun alts :: "rx \<Rightarrow> rx list \<Rightarrow> rx" where
  "alts r [] = r"
| "alts r (q # qs) = Alt r (alts q qs)"

definition plus :: "rx \<Rightarrow> rx" where "plus r = Rep 1 None r"
definition star :: "rx \<Rightarrow> rx" where "star r = Rep 0 None r"
definition opt :: "rx \<Rightarrow> rx" where "opt r = Rep 0 (Some 1) r"

text \<open>
  A match as \<open>re\<close> reports it: the text skipped before it, the matched text (group 0), the
  capture group, and where the match ends.
\<close>

record rmatch =
  m_pre :: string
  m_text :: string
  m_group :: "string option"
  m_prev :: "char option"
  m_rest :: string

text \<open>\<open>pattern.search\<close>: the first position, from the left, at which the pattern matches.\<close>

fun rx_search :: "rx \<Rightarrow> char option \<Rightarrow> string \<Rightarrow> rmatch option" where
  "rx_search r p [] =
     (case rx_match r (p, [], None) of
        [] \<Rightarrow> None
      | (p', s', c) # _ \<Rightarrow> Some \<lparr>m_pre = [], m_text = [], m_group = c, m_prev = p', m_rest = s'\<rparr>)"
| "rx_search r p (x # xs) =
     (case rx_match r (p, x # xs, None) of
        [] \<Rightarrow> map_option (\<lambda>m. m\<lparr>m_pre := x # m_pre m\<rparr>) (rx_search r (Some x) xs)
      | (p', s', c) # _ \<Rightarrow>
          Some \<lparr>m_pre = [], m_text = take (length (x # xs) - length s') (x # xs), m_group = c,
                m_prev = p', m_rest = s'\<rparr>)"

text \<open>
  \<open>re.finditer\<close>: the matches from left to right, each search starting where the match
  before it ended. (No pattern of the analyzer matches the empty string; after an empty
  match the search moves on by one character.)
\<close>

function rx_finditer :: "rx \<Rightarrow> char option \<Rightarrow> string \<Rightarrow> rmatch list" where
  "rx_finditer r p s =
     (case rx_search r p s of
        None \<Rightarrow> []
      | Some m \<Rightarrow>
          if length (m_rest m) < length s then m # rx_finditer r (m_prev m) (m_rest m)
          else (case s of [] \<Rightarrow> [m] | x # xs \<Rightarrow> m # rx_finditer r (Some x) xs))"
  by pat_completeness auto
termination
  by (relation "measure (\<lambda>(r, p, s). length s)") auto

declare rx_finditer.simps [simp del]

text \<open>\<open>len(re.findall(pattern, text))\<close>\<close>

definition rx_count :: "rx \<Rightarrow> string \<Rightarrow> nat" where
  "rx_count r s = length (rx_finditer r None s)"

text \<open>\<open>re.split\<close>: the pieces of the text between the matches.\<close>

definition rx_split :: "rx \<Rightarrow> string \<Rightarrow> string list" where
  "rx_split r s =
     (let ms = rx_finditer r None s
      in map m_pre ms @ [if ms = [] then s else m_rest (last ms)])"

text \<open>The word-boundary pattern \<open>r'\b' + re.escape(keyword) + r'\b'\<close> under \<open>re.IGNORECASE\<close>.\<close>

definition word_pattern :: "string \<Rightarrow> rx" where
  "word_pattern k = seqs [WordB, lit_i k, WordB]"

text \<open>The sentence separator \<open>r'[.!?]\s+'\<close>.\<close>

definition sentence_sep :: rx where
  "sentence_sep = Seq (Cls (\<lambda>c. c \<in> set ''.!?'')) (plus (Cls is_space))"

definition split_sentences :: "string \<Rightarrow> string list" where
  "split_sentences s = rx_split sentence_sep s"

section \<open>Double-precision arithmetic\<close>

text \<open>
  Python's \<open>float\<close> is an IEEE 754 binary64. A finite double is modelled by the rational it
  denotes; \<open>rnd\<close> rounds a rational to the nearest number with a 53-bit significand, ties
  to even (the exponent range of binary64 is not modelled: the quotients and products of
  the analyzer lie between 0 and 100).
\<close>

definition round_even :: "rat \<Rightarrow> int" where
  "round_even q =
     (let f = \<lfloor>q\<rfloor>; d = q - of_int f
      in if d < 1 / 2 then f else if 1 / 2 < d then f + 1 else if even f then f else f + 1)"

definition pow2 :: "int \<Rightarrow> rat" where
  "pow2 k = (if 0 \<le> k then 2 ^ nat k else 1 / 2 ^ nat (- k))"

definition expo :: "rat \<Rightarrow> int" where
  "expo q = (let (a, b) = quotient_of q; k = bitlen a - bitlen b
             in if pow2 k \<le> q then k else k - 1)"

definition rnd :: "rat \<Rightarrow> rat" where
  "rnd q = (if q = 0 then 0
            else let e = expo \<bar>q\<bar> - 52
                 in sgn q * of_int (round_even (\<bar>q\<bar> / pow2 e)) * pow2 e)"

text \<open>\<open>a / b\<close> on two \<open>int\<close>s (true division), \<open>x * y\<close> on doubles, and \<open>int(x)\<close>.\<close>

definition fdiv :: "int \<Rightarrow> int \<Rightarrow> rat" where
  "fdiv a b = rnd (of_int a / of_int b)"

definition fmul :: "rat \<Rightarrow> rat \<Rightarrow> rat" where
  "fmul x y = rnd (x * y)"

definition py_int :: "rat \<Rightarrow> int" where
  "py_int x = (if 0 \<le> x then \<lfloor>x\<rfloor> else \<lceil>x\<rceil>)"

text \<open>A decimal literal of the source, such as \<open>0.7\<close>: the double nearest to it.\<close>

definition float_lit :: "rat \<Rightarrow> rat" where
  "float_lit q = rnd q"

section \<open>Data model\<close>

text \<open>
  The input of \<open>analyze\<close> is a dictionary of dictionaries read with \<open>dict.get\<close>: a key that
  is absent is \<open>None\<close> here, and the default of the \<open>get\<close> call is written out where the
  field is read.
\<close>

record post =
  post_title :: "string option"
  post_text :: "string option"
  post_url :: "string option"
  post_subreddit :: "string option"
  post_created_utc :: "string option"
  post_score :: "int option"

record comment =
  comment_body :: "string option"
  comment_url :: "string option"
  comment_subreddit :: "string option"
  comment_created_utc :: "string option"
  comment_score :: "int option"

record user_info =
  ui_name :: "string option"
  ui_created_utc :: "string option"
  ui_comment_karma :: "int option"
  ui_link_karma :: "int option"
  ui_is_gold :: "bool option"
  ui_is_mod :: "bool option"

record user_data =
  ud_user_info :: "user_info option"
  ud_posts :: "post list option"
  ud_comments :: "comment list option"

text \<open>What a caller can pass for \<open>user_data\<close>: a dictionary, or a value without \<open>get\<close>.\<close>

datatype py_value = PyDict user_data | PyOther

datatype py_error = AttributeError | TypeError

record text_item =
  ti_text :: string
  ti_source :: string
  ti_url :: string
  ti_subreddit :: string
  ti_created_utc :: string
  ti_score :: int

text \<open>
  A citation is a reference to a text item. The records that hold citations are written
  over the record scheme of \<open>text_item\<close>: a plain \<open>text_item\<close> is the dictionary read as a
  value, and an extension of it can carry the identity of the dictionary as well.
\<close>

record 'm fact =
  description :: string
  citation :: "'m text_item_scheme"

record ('a, 'm) dfield =
  df_value :: "'a option"
  df_confidence :: rat
  df_citation :: "'m text_item_scheme option"

record 'm demographics =
  d_age :: "(nat, 'm) dfield"
  d_location :: "(string, 'm) dfield"
  d_occupation :: "(string, 'm) dfield"
  d_status :: "(string, 'm) dfield"

record 'm scored =
  sc_score :: int
  sc_citations :: "'m text_item_scheme list"

record 'm personality_dims =
  introvert_extrovert :: "'m scored"
  intuition_sensing :: "'m scored"
  feeling_thinking :: "'m scored"
  perceiving_judging :: "'m scored"

record posting_frequency =
  activity_level :: string
  most_active_days :: "(string \<times> nat) list"
  most_active_hours :: "(nat \<times> nat) list"

record activity =
  total_posts :: nat
  total_comments :: nat
  active_subreddits :: "(string \<times> nat) list"
  posting_freq :: posting_frequency

record 'm basic_info =
  username :: string
  account_age :: string
  karma :: int
  is_gold :: bool
  is_mod :: bool
  detected_demographics :: "'m demographics"

record 'm persona =
  basic :: "'m basic_info"
  activity_of :: activity
  behavior_and_habits :: "'m fact list"
  frustrations :: "'m fact list"
  motivations :: "(string \<times> 'm scored) list"
  goals_and_needs :: "'m fact list"
  personality :: "'m personality_dims"
  archetype :: string

text \<open>
  \<open>item in citations\<close> and \<open>item not in citations\<close> compare dictionaries by their entries,
  not by identity.
\<close>

definition same_dict :: "'m text_item_scheme \<Rightarrow> 'm text_item_scheme \<Rightarrow> bool" where
  "same_dict a b = (text_item.truncate a = text_item.truncate b)"

definition cited :: "'m text_item_scheme \<Rightarrow> 'm text_item_scheme list \<Rightarrow> bool" where
  "cited item cs = list_ex (same_dict item) cs"

subsection \<open>Library calls\<close>

text \<open>
  A \<open>datetime\<close> as the analyzer reads it: whether it carries a time zone, its position on
  the time line in microseconds (the order of \<open>sort\<close> and the operand of \<open>-\<close>), and its
  \<open>strftime('%A')\<close> and \<open>hour\<close>.
\<close>

record datetime =
  dt_aware :: bool
  dt_micros :: int
  dt_weekday :: string
  dt_hour :: nat

text \<open>
  The calls into the standard library and NLTK, which are not part of the repository:
  \<open>datetime.fromisoformat\<close> (\<open>None\<close> for \<open>ValueError\<close>), \<open>datetime.now()\<close>, the \<open>neg\<close> and
  \<open>pos\<close> entries of \<open>SentimentIntensityAnalyzer.polarity_scores\<close>, \<open>word_tokenize\<close> and
  the English stop words.
\<close>

record env =
  fromisoformat :: "string \<Rightarrow> datetime option"
  now :: datetime
  polarity_neg :: "string \<Rightarrow> rat"
  polarity_pos :: "string \<Rightarrow> rat"
  word_tokenize :: "string \<Rightarrow> string list"
  stop_words :: "string list"

subsection \<open>Counters\<close>

text \<open>
  A \<open>collections.Counter\<close> keeps its keys in insertion order; \<open>most_common(n)\<close> is a stable
  sort by descending count, cut at \<open>n\<close>.
\<close>

fun bump :: "'k \<Rightarrow> ('k \<times> nat) list \<Rightarrow> ('k \<times> nat) list" where
  "bump k [] = [(k, 1)]"
| "bump k ((k', n) # kvs) = (if k = k' then (k', n + 1) # kvs else (k', n) # bump k kvs)"

definition counter :: "'k list \<Rightarrow> ('k \<times> nat) list" where
  "counter ks = foldl (\<lambda>c k. bump k c) [] ks"

definition most_common :: "nat \<Rightarrow> ('k \<times> nat) list \<Rightarrow> ('k \<times> nat) list" where
  "most_common n kvs = take n (sort_key (\<lambda>kv. - int (snd kv)) kvs)"

section \<open>Account age and activity\<close>

definition plural :: "int \<Rightarrow> string" where
  "plural n = (if n \<noteq> 1 then ''s'' else [])"

definition calculate_account_age :: "env \<Rightarrow> string option \<Rightarrow> string" where
  "calculate_account_age e created_utc =
     (case created_utc of
        None \<Rightarrow> ''Unknown''
      | Some s \<Rightarrow>
          if s = [] then ''Unknown''
          else (case fromisoformat e s of
                  None \<Rightarrow> ''Unknown''
                | Some created_date \<Rightarrow>
                    if dt_aware created_date \<noteq> dt_aware (now e) then ''Unknown''
                    else
                      let days = (dt_micros (now e) - dt_micros created_date) div 86400000000;
                          years = days div 365;
                          months = (days mod 365) div 30
                      in if 0 < years
                         then str_int years @ '' year'' @ plural years @ '' '' @ str_int months
                              @ '' month'' @ plural months
                         else str_int months @ '' month'' @ plural months))"

definition truthy :: "string option \<Rightarrow> string list" where
  "truthy v = (case v of None \<Rightarrow> [] | Some s \<Rightarrow> if s = [] then [] else [s])"

definition get_active_subreddits :: "post list \<Rightarrow> comment list \<Rightarrow> (string \<times> nat) list" where
  "get_active_subreddits posts comments =
     most_common 10
       (counter (concat (map (\<lambda>p. truthy (post_subreddit p)) posts)
                 @ concat (map (\<lambda>c. truthy (comment_subreddit c)) comments)))"

text \<open>
  The timestamps that parse, posts first. A timestamp that is absent, empty or rejected by
  \<open>fromisoformat\<close> is left out.
\<close>

definition parse_timestamp :: "env \<Rightarrow> string option \<Rightarrow> datetime list" where
  "parse_timestamp e created_utc =
     concat (map (\<lambda>s. case fromisoformat e s of None \<Rightarrow> [] | Some d \<Rightarrow> [d]) (truthy created_utc))"

definition collect_timestamps :: "env \<Rightarrow> post list \<Rightarrow> comment list \<Rightarrow> datetime list" where
  "collect_timestamps e posts comments =
     concat (map (\<lambda>p. parse_timestamp e (post_created_utc p)) posts)
     @ concat (map (\<lambda>c. parse_timestamp e (comment_created_utc c)) comments)"

text \<open>
  \<open>list.sort\<close> on datetimes: comparing a datetime that has a time zone with one that has
  none raises \<open>TypeError\<close>.
\<close>

definition comparable :: "datetime list \<Rightarrow> bool" where
  "comparable ts = (list_all dt_aware ts \<or> list_all (\<lambda>t. \<not> dt_aware t) ts)"

definition sort_timestamps :: "datetime list \<Rightarrow> py_error + datetime list" where
  "sort_timestamps ts = (if comparable ts then Inr (sort_key dt_micros ts) else Inl TypeError)"

definition level_of :: "nat \<Rightarrow> string" where
  "level_of n = (if n < 10 then ''Low'' else if n < 50 then ''Moderate'' else ''High'')"

definition analyze_posting_frequency ::
  "env \<Rightarrow> post list \<Rightarrow> comment list \<Rightarrow> py_error + posting_frequency" where
  "analyze_posting_frequency e posts comments =
     (let timestamps = collect_timestamps e posts comments
      in if timestamps = []
         then Inr \<lparr>activity_level = ''Unknown'', most_active_days = [], most_active_hours = []\<rparr>
         else (case sort_timestamps timestamps of
                 Inl err \<Rightarrow> Inl err
               | Inr sorted_ts \<Rightarrow>
                   Inr \<lparr>activity_level = level_of (length sorted_ts),
                        most_active_days = most_common 3 (counter (map dt_weekday sorted_ts)),
                        most_active_hours = most_common 3 (counter (map dt_hour sorted_ts))\<rparr>))"

section \<open>Similarity and the three fact miners\<close>

definition word_set :: "env \<Rightarrow> string \<Rightarrow> string set" where
  "word_set e t = set (word_tokenize e (lower t)) - set (stop_words e)"

definition text_similarity :: "env \<Rightarrow> string \<Rightarrow> string \<Rightarrow> rat" where
  "text_similarity e text1 text2 =
     (let words1 = word_set e text1; words2 = word_set e text2
      in if words1 = {} \<or> words2 = {} then 0
         else let intersection = card (words1 \<inter> words2); union = card (words1 \<union> words2)
              in if 0 < union then fdiv (int intersection) (int union) else 0)"

text \<open>
  The state of a miner: the texts accepted so far (the set \<open>behavior_texts\<close>, in the order
  in which they were added) and the facts built from them.
\<close>

type_synonym 'm miner = "string list \<times> 'm fact list"

definition is_new :: "env \<Rightarrow> string \<Rightarrow> string list \<Rightarrow> bool" where
  "is_new e cand texts = (\<not> list_ex (\<lambda>b. float_lit (7 / 10) < text_similarity e cand b) texts)"

definition add_fact :: "'m text_item_scheme \<Rightarrow> string \<Rightarrow> 'm miner \<Rightarrow> 'm miner" where
  "add_fact item cand st =
     (fst st @ [cand], snd st @ [\<lparr>description = capitalize (strip cand), citation = item\<rparr>])"

definition accept :: "env \<Rightarrow> 'm text_item_scheme \<Rightarrow> string \<Rightarrow> 'm miner \<Rightarrow> 'm miner" where
  "accept e item cand st = (if is_new e cand (fst st) then add_fact item cand st else st)"

text \<open>
  Strategy (a): for each keyword that occurs in the text, the sentences that hold the
  keyword and are longer than \<open>min_len\<close>.
\<close>

definition keyword_scan :: "env \<Rightarrow> string list \<Rightarrow> nat \<Rightarrow> 'm text_item_scheme \<Rightarrow> string \<Rightarrow> 'm miner \<Rightarrow> 'm miner" where
  "keyword_scan e keywords min_len item text st =
     foldl (\<lambda>st keyword.
              if contains keyword text
              then foldl (\<lambda>st sentence.
                            if contains keyword sentence \<and> min_len < length sentence
                            then accept e item sentence st else st)
                         st (split_sentences text)
              else st)
           st keywords"

text \<open>
  Strategy (b): for each template, each of its matches in the text; \<open>mk\<close> builds the
  candidate from the matched text, which has to be longer than 10.
\<close>

definition template :: "string \<Rightarrow> rx" where
  "template phrase =
     seqs [WordB, lit_i phrase, plus (Cls is_space), Grp (plus (Cls (\<lambda>c. c \<notin> set ''.,!?;'')))]"

definition template_candidates :: "string list \<Rightarrow> (string \<Rightarrow> string) \<Rightarrow> string \<Rightarrow> string list" where
  "template_candidates phrases mk text =
     concat (map (\<lambda>phrase. map (\<lambda>m. mk (m_text m)) (rx_finditer (template phrase) None text)) phrases)"

definition pattern_scan ::
  "env \<Rightarrow> string list \<Rightarrow> (string \<Rightarrow> string) \<Rightarrow> 'm text_item_scheme \<Rightarrow> string \<Rightarrow> 'm miner \<Rightarrow> 'm miner" where
  "pattern_scan e phrases mk item text st =
     foldl (\<lambda>st cand. if 10 < length cand then accept e item cand st else st)
           st (template_candidates phrases mk text)"

definition habit_keywords :: "string list" where
  "habit_keywords =
     [''always'', ''usually'', ''often'', ''regularly'', ''routine'', ''habit'', ''daily'',
      ''weekly'', ''monthly'', ''every day'', ''every week'', ''every month'', ''constantly'',
      ''frequently'', ''rarely'', ''never'', ''sometimes'', ''occasionally'']"

definition habit_patterns :: "string list" where
  "habit_patterns =
     [''I always'', ''I usually'', ''I often'', ''I never'', ''I regularly'', ''I tend to'',
      ''I like to'']"

definition frustration_keywords :: "string list" where
  "frustration_keywords =
     [''annoying'', ''frustrating'', ''hate'', ''tired of'', ''sick of'', ''annoyed'',
      ''difficult'', ''problem'', ''issue'', ''struggle'', ''challenging'', ''impossible'',
      ''irritating'', ''bothers'', ''fed up'', ''upset'', ''angry'', ''disappointed'']"

definition frustration_patterns :: "string list" where
  "frustration_patterns =
     [''I hate'', ''I can't stand'', ''I'm tired of'', ''I'm sick of'', ''It's frustrating'',
      ''It annoys me'']"

definition goal_keywords :: "string list" where
  "goal_keywords =
     [''goal'', ''plan'', ''aim'', ''objective'', ''target'', ''aspiration'', ''ambition'',
      ''dream'', ''hope'', ''want to'', ''would like to'', ''trying to'', ''working on'',
      ''looking to'', ''intend to'', ''need to'', ''must'', ''should'']"

definition goal_patterns :: "string list" where
  "goal_patterns =
     [''I want to'', ''I need to'', ''My goal is'', ''I'm trying to'', ''I hope to'',
      ''I wish I could'']"

definition behavior_step :: "env \<Rightarrow> 'm miner \<Rightarrow> 'm text_item_scheme \<Rightarrow> 'm miner" where
  "behavior_step e st item =
     (let text = lower (ti_text item)
      in pattern_scan e habit_patterns (\<lambda>m. ''I '' @ m) item text
           (keyword_scan e habit_keywords 20 item text st))"

definition extract_behaviors_and_habits :: "env \<Rightarrow> 'm text_item_scheme list \<Rightarrow> 'm fact list" where
  "extract_behaviors_and_habits e text_items = take 10 (snd (foldl (behavior_step e) ([], []) text_items))"

text \<open>The frustration miner runs strategy (a) only on a text whose \<open>neg\<close> score is above 0.2.\<close>

definition negative :: "env \<Rightarrow> string \<Rightarrow> bool" where
  "negative e text = (float_lit (2 / 10) < polarity_neg e text)"

definition frustration_step :: "env \<Rightarrow> 'm miner \<Rightarrow> 'm text_item_scheme \<Rightarrow> 'm miner" where
  "frustration_step e st item =
     (let text = lower (ti_text item)
      in pattern_scan e frustration_patterns (\<lambda>m. m) item text
           (if negative e text then keyword_scan e frustration_keywords 15 item text st else st))"

definition extract_frustrations :: "env \<Rightarrow> 'm text_item_scheme list \<Rightarrow> 'm fact list" where
  "extract_frustrations e text_items = take 10 (snd (foldl (frustration_step e) ([], []) text_items))"

definition goal_step :: "env \<Rightarrow> 'm miner \<Rightarrow> 'm text_item_scheme \<Rightarrow> 'm miner" where
  "goal_step e st item =
     (let text = lower (ti_text item)
      in pattern_scan e goal_patterns (\<lambda>m. m) item text
           (keyword_scan e goal_keywords 15 item text st))"

definition extract_goals_and_needs :: "env \<Rightarrow> 'm text_item_scheme list \<Rightarrow> 'm fact list" where
  "extract_goals_and_needs e text_items = take 10 (snd (foldl (goal_step e) ([], []) text_items))"

section \<open>Demographics\<close>

definition is_alpha :: "char \<Rightarrow> bool" where
  "is_alpha c = (is_upper c \<or> is_lower c)"

text \<open>\<open>\b(?:I am|I\'m)\s+(?P<age>\d{1,2})\s*(?:years?\s+old|yo|y\.o\.)\b\<close>, ignoring case.\<close>

definition age_pattern :: rx where
  "age_pattern =
     seqs [WordB, Alt (lit_i ''I am'') (lit_i ''I'm''), plus (Cls is_space),
           Grp (Rep 1 (Some 2) (Cls is_digit)), star (Cls is_space),
           alts (seqs [lit_i ''year'', opt (lit_i ''s''), plus (Cls is_space), lit_i ''old''])
                [lit_i ''yo'', lit_i ''y.o.''],
           WordB]"

text \<open>
  \<open>\b(?:I (?:am from|live in|reside in|currently in))\s+(?P<location>[A-Z][a-z]+(?: [A-Z][a-z]+)*)\b\<close>,
  case-sensitive.
\<close>

definition location_pattern :: rx where
  "location_pattern =
     seqs [WordB, lit ''I '',
           alts (lit ''am from'') [lit ''live in'', lit ''reside in'', lit ''currently in''],
           plus (Cls is_space),
           Grp (seqs [Cls is_upper, plus (Cls is_lower),
                      star (seqs [lit '' '', Cls is_upper, plus (Cls is_lower)])]),
           WordB]"

text \<open>
  \<open>\b(?:I (?:am|work as|am employed as))\s+(?:an?|the)\s+(?P<occupation>[a-z]+(?:\s+[a-z]+){0,2})\b\<close>,
  ignoring case.
\<close>

definition occupation_pattern :: rx where
  "occupation_pattern =
     seqs [WordB, lit_i ''I '',
           alts (lit_i ''am'') [lit_i ''work as'', lit_i ''am employed as''],
           plus (Cls is_space),
           Alt (Seq (lit_i ''a'') (opt (lit_i ''n''))) (lit_i ''the''),
           plus (Cls is_space),
           Grp (seqs [plus (Cls is_alpha),
                      Rep 0 (Some 2) (Seq (plus (Cls is_space)) (plus (Cls is_alpha)))]),
           WordB]"

definition status_indicators :: "(string \<times> string list) list" where
  "status_indicators =
     [(''single'', [''single'', ''bachelor'', ''bachelorette'', ''unmarried'', ''not married'']),
      (''married'', [''married'', ''wife'', ''husband'', ''spouse'']),
      (''in a relationship'', [''girlfriend'', ''boyfriend'', ''partner'', ''in a relationship'']),
      (''divorced'', [''divorced'', ''ex-wife'', ''ex-husband'', ''ex spouse'']),
      (''widowed'', [''widowed'', ''widow'', ''widower''])]"

definition status_pattern :: "string \<Rightarrow> rx" where
  "status_pattern indicator =
     seqs [WordB, alts (lit_i ''I am'') [lit_i ''I'm'', lit_i ''my''], plus (Cls is_space),
           lit_i indicator, WordB]"

text \<open>\<open>not value\<close>: the value is \<open>None\<close>, the number 0 or the empty string.\<close>

definition unset_age :: "(nat, 'm) dfield \<Rightarrow> bool" where
  "unset_age f = (df_value f = None \<or> df_value f = Some 0)"

definition unset_str :: "(string, 'm) dfield \<Rightarrow> bool" where
  "unset_str f = (df_value f = None \<or> df_value f = Some [])"

definition no_field :: "('a, 'm) dfield" where
  "no_field = \<lparr>df_value = None, df_confidence = 0, df_citation = None\<rparr>"

definition age_step :: "'m text_item_scheme \<Rightarrow> (nat, 'm) dfield \<Rightarrow> (nat, 'm) dfield" where
  "age_step item f =
     (case rx_search age_pattern None (ti_text item) of
        None \<Rightarrow> f
      | Some age_match \<Rightarrow>
          if unset_age f
          then (case m_group age_match of
                  None \<Rightarrow> f
                | Some g \<Rightarrow>
                    let age = int_of_digits g
                    in if 13 \<le> age \<and> age \<le> 90
                       then \<lparr>df_value = Some age, df_confidence = float_lit (9 / 10),
                             df_citation = Some item\<rparr>
                       else f)
          else f)"

definition location_step :: "'m text_item_scheme \<Rightarrow> (string, 'm) dfield \<Rightarrow> (string, 'm) dfield" where
  "location_step item f =
     (case rx_search location_pattern None (ti_text item) of
        None \<Rightarrow> f
      | Some location_match \<Rightarrow>
          if unset_str f \<or> df_confidence f < float_lit (8 / 10)
          then (case m_group location_match of
                  None \<Rightarrow> f
                | Some location \<Rightarrow>
                    \<lparr>df_value = Some location, df_confidence = float_lit (8 / 10),
                     df_citation = Some item\<rparr>)
          else f)"

definition occupation_stoplist :: "string list" where
  "occupation_stoplist = [''a'', ''the'', ''just'', ''really'', ''very'', ''quite'', ''actually'']"

definition occupation_step :: "'m text_item_scheme \<Rightarrow> (string, 'm) dfield \<Rightarrow> (string, 'm) dfield" where
  "occupation_step item f =
     (case rx_search occupation_pattern None (ti_text item) of
        None \<Rightarrow> f
      | Some occupation_match \<Rightarrow>
          if unset_str f \<or> df_confidence f < float_lit (7 / 10)
          then (case m_group occupation_match of
                  None \<Rightarrow> f
                | Some occupation \<Rightarrow>
                    if lower occupation \<notin> set occupation_stoplist
                    then \<lparr>df_value = Some occupation, df_confidence = float_lit (7 / 10),
                          df_citation = Some item\<rparr>
                    else f)
          else f)"

definition status_step :: "'m text_item_scheme \<Rightarrow> (string, 'm) dfield \<Rightarrow> (string, 'm) dfield" where
  "status_step item f =
     foldl (\<lambda>f (status, indicators).
              foldl (\<lambda>f indicator.
                       if rx_search (status_pattern indicator) None (ti_text item) \<noteq> None
                          \<and> (unset_str f \<or> df_confidence f < float_lit (75 / 100))
                       then \<lparr>df_value = Some status, df_confidence = float_lit (75 / 100),
                             df_citation = Some item\<rparr>
                       else f)
                    f indicators)
           f status_indicators"

definition demographics_step :: "'m demographics \<Rightarrow> 'm text_item_scheme \<Rightarrow> 'm demographics" where
  "demographics_step d item =
     \<lparr>d_age = age_step item (d_age d),
      d_location = location_step item (d_location d),
      d_occupation = occupation_step item (d_occupation d),
      d_status = status_step item (d_status d)\<rparr>"

definition extract_demographics :: "'m text_item_scheme list \<Rightarrow> 'm demographics" where
  "extract_demographics text_items =
     foldl demographics_step
       \<lparr>d_age = no_field, d_location = no_field, d_occupation = no_field, d_status = no_field\<rparr>
       text_items"

section \<open>Motivations\<close>

definition category_keywords :: "(string \<times> string list) list" where
  "category_keywords =
     [(''convenience'', [''convenient'', ''easy'', ''simple'', ''quick'', ''efficient'',
                         ''hassle-free'', ''straightforward'']),
      (''wellness'', [''healthy'', ''nutrition'', ''fitness'', ''wellbeing'', ''exercise'', ''diet'',
                      ''organic'', ''natural'']),
      (''speed'', [''fast'', ''quick'', ''rapid'', ''instant'', ''immediate'', ''promptly'',
                   ''speedily'', ''swift'']),
      (''preferences'', [''prefer'', ''like'', ''enjoy'', ''favorite'', ''choice'', ''rather'',
                         ''option'', ''selection'']),
      (''comfort'', [''comfortable'', ''cozy'', ''relaxing'', ''pleasant'', ''soothing'',
                     ''satisfying'', ''content'']),
      (''dietary_needs'', [''vegetarian'', ''vegan'', ''gluten-free'', ''dairy-free'', ''allergy'',
                           ''intolerance'', ''diet''])]"

definition motivation_names :: "string list" where
  "motivation_names = map fst category_keywords"

text \<open>
  The dictionary \<open>motivation_categories\<close> has the six names as its keys throughout; it is a
  function from the name to the entry.
\<close>

type_synonym 'm categories = "string \<Rightarrow> 'm scored"

definition credit :: "'m text_item_scheme \<Rightarrow> 'm scored \<Rightarrow> 'm scored" where
  "credit item c =
     \<lparr>sc_score = sc_score c + 1,
      sc_citations = (if cited item (sc_citations c) then sc_citations c
                      else sc_citations c @ [item])\<rparr>"

definition score_keyword :: "env \<Rightarrow> 'm text_item_scheme \<Rightarrow> string \<Rightarrow> 'm scored \<Rightarrow> string \<Rightarrow> 'm scored" where
  "score_keyword e item text c keyword =
     (if contains keyword text
      then foldl (\<lambda>c sentence.
                    if contains keyword sentence \<and> float_lit (1 / 10) < polarity_pos e sentence
                    then credit item c else c)
                 c (split_sentences text)
      else c)"

definition motivation_step :: "env \<Rightarrow> 'm categories \<Rightarrow> 'm text_item_scheme \<Rightarrow> 'm categories" where
  "motivation_step e cats item =
     (let text = lower (ti_text item)
      in foldl (\<lambda>cats (category, keywords).
                  cats(category := foldl (score_keyword e item text) (cats category) keywords))
               cats category_keywords)"

definition raw_motivations :: "env \<Rightarrow> 'm text_item_scheme list \<Rightarrow> 'm categories" where
  "raw_motivations e text_items =
     foldl (motivation_step e) (\<lambda>category. \<lparr>sc_score = 0, sc_citations = []\<rparr>) text_items"

definition max_score :: "'m categories \<Rightarrow> int" where
  "max_score cats =
     (if list_ex (\<lambda>category. 0 < sc_score (cats category)) motivation_names
      then Max (set (map (\<lambda>category. sc_score (cats category)) motivation_names))
      else 1)"

definition normalized_score :: "int \<Rightarrow> int \<Rightarrow> int" where
  "normalized_score mx raw_score =
     (if 0 < mx then min 10 (py_int (fmul (fdiv raw_score mx) 10)) else 0)"

definition normalize_motivations :: "'m categories \<Rightarrow> (string \<times> 'm scored) list" where
  "normalize_motivations cats =
     map (\<lambda>category.
            (category,
             \<lparr>sc_score = normalized_score (max_score cats) (sc_score (cats category)),
              sc_citations = take 3 (sc_citations (cats category))\<rparr>))
         motivation_names"

definition extract_motivations :: "env \<Rightarrow> 'm text_item_scheme list \<Rightarrow> (string \<times> 'm scored) list" where
  "extract_motivations e text_items = normalize_motivations (raw_motivations e text_items)"

section \<open>Personality\<close>

fun join_space :: "string list \<Rightarrow> string" where
  "join_space [] = []"
| "join_space [s] = s"
| "join_space (s # ss) = s @ '' '' @ join_space ss"

definition all_text_of :: "'m text_item_scheme list \<Rightarrow> string" where
  "all_text_of text_items = join_space (map (\<lambda>item. lower (ti_text item)) text_items)"

definition cite_keyword :: "'m text_item_scheme list \<Rightarrow> string \<Rightarrow> 'm text_item_scheme list \<Rightarrow> 'm text_item_scheme list" where
  "cite_keyword text_items keyword cites =
     foldl (\<lambda>cs item.
              if rx_search (word_pattern keyword) None (lower (ti_text item)) \<noteq> None \<and> \<not> cited item cs
              then cs @ [item] else cs)
           cites text_items"

text \<open>One trait of a dimension: the count of its keywords in the whole text, and the citations.\<close>

definition count_trait ::
  "'m text_item_scheme list \<Rightarrow> string list \<Rightarrow> int \<times> 'm text_item_scheme list \<Rightarrow> int \<times> 'm text_item_scheme list" where
  "count_trait text_items keywords st =
     foldl (\<lambda>st keyword.
              (fst st + int (rx_count (word_pattern keyword) (all_text_of text_items)),
               cite_keyword text_items keyword (snd st)))
           st keywords"

definition percentage :: "int \<Rightarrow> int \<Rightarrow> int" where
  "percentage right_count count_total = py_int (fmul (fdiv right_count count_total) 100)"

definition analyze_dimension :: "'m text_item_scheme list \<Rightarrow> string list \<Rightarrow> string list \<Rightarrow> 'm scored" where
  "analyze_dimension text_items left_keywords right_keywords =
     (let l = count_trait text_items left_keywords (0, []);
          r = count_trait text_items right_keywords (0, snd l);
          left_count = fst l;
          right_count = fst r;
          count_total = left_count + right_count
      in \<lparr>sc_score = (if 0 < count_total then percentage right_count count_total else 50),
          sc_citations = take 3 (snd r)\<rparr>)"

definition introvert :: "string list" where
  "introvert = [''quiet'', ''shy'', ''reserved'', ''private'', ''alone'', ''introvert'', ''solitude'',
                ''independent'']"

definition extrovert :: "string list" where
  "extrovert = [''outgoing'', ''social'', ''talkative'', ''energetic'', ''extrovert'',
                ''people person'', ''party'', ''group'']"

definition intuition :: "string list" where
  "intuition = [''abstract'', ''theoretical'', ''imagine'', ''possibility'', ''future'',
                ''innovative'', ''creative'']"

definition sensing :: "string list" where
  "sensing = [''practical'', ''detail'', ''fact'', ''reality'', ''present'', ''concrete'', ''specific'',
              ''literal'']"

definition feeling :: "string list" where
  "feeling = [''emotion'', ''feel'', ''empathy'', ''compassion'', ''harmony'', ''value'', ''personal'']"

definition thinking :: "string list" where
  "thinking = [''logic'', ''rational'', ''objective'', ''analyze'', ''principle'', ''fair'',
               ''reasonable'']"

definition perceiving :: "string list" where
  "perceiving = [''flexible'', ''adaptable'', ''spontaneous'', ''open-ended'', ''casual'',
                 ''improvise'']"

definition judging :: "string list" where
  "judging = [''organized'', ''plan'', ''structure'', ''decisive'', ''systematic'', ''orderly'',
              ''schedule'']"

definition analyze_personality :: "'m text_item_scheme list \<Rightarrow> 'm personality_dims" where
  "analyze_personality text_items =
     \<lparr>introvert_extrovert = analyze_dimension text_items introvert extrovert,
      intuition_sensing = analyze_dimension text_items intuition sensing,
      feeling_thinking = analyze_dimension text_items feeling thinking,
      perceiving_judging = analyze_dimension text_items perceiving judging\<rparr>"

section \<open>Archetype\<close>

text \<open>The table \<open>archetypes\<close>: name, traits, subreddits, in the order of the dictionary.\<close>

definition archetypes :: "(string \<times> string list \<times> string list) list" where
  "archetypes =
     [(''The Creator'',
       [''creative'', ''artistic'', ''innovative'', ''expressive'', ''original''],
       [''art'', ''design'', ''writing'', ''crafts'', ''DIY'', ''photography'']),
      (''The Caregiver'',
       [''nurturing'', ''supportive'', ''helpful'', ''compassionate'', ''generous''],
       [''parenting'', ''relationships'', ''caregiving'', ''nursing'', ''teaching'']),
      (''The Explorer'',
       [''adventurous'', ''curious'', ''independent'', ''free-spirited'', ''pioneering''],
       [''travel'', ''hiking'', ''outdoors'', ''backpacking'', ''camping'', ''EarthPorn'']),
      (''The Sage'',
       [''knowledgeable'', ''wise'', ''analytical'', ''thoughtful'', ''intellectual''],
       [''science'', ''philosophy'', ''history'', ''askscience'', ''explainlikeimfive'']),
      (''The Rebel'',
       [''unconventional'', ''revolutionary'', ''disruptive'', ''challenging'', ''radical''],
       [''unpopularopinion'', ''changemyview'', ''politics'', ''conspiracy'']),
      (''The Hero'',
       [''brave'', ''determined'', ''resilient'', ''protective'', ''strong''],
       [''fitness'', ''GetMotivated'', ''MilitaryStories'', ''HumansBeingBros'']),
      (''The Jester'',
       [''humorous'', ''playful'', ''entertaining'', ''light-hearted'', ''witty''],
       [''funny'', ''jokes'', ''memes'', ''humor'', ''standupcomedy'']),
      (''The Everyman'',
       [''relatable'', ''authentic'', ''grounded'', ''practical'', ''regular''],
       [''CasualConversation'', ''AskReddit'', ''NoStupidQuestions'', ''TooAfraidToAsk'']),
      (''The Ruler'',
       [''organized'', ''controlling'', ''responsible'', ''authoritative'', ''structured''],
       [''personalfinance'', ''productivity'', ''leadership'', ''business'']),
      (''The Magician'',
       [''transformative'', ''visionary'', ''insightful'', ''inspiring'', ''charismatic''],
       [''futurology'', ''technology'', ''programming'', ''psychology'']),
      (''The Lover'',
       [''passionate'', ''romantic'', ''sensual'', ''appreciative'', ''devoted''],
       [''relationship_advice'', ''dating_advice'', ''sex'', ''love'']),
      (''The Innocent'',
       [''optimistic'', ''pure'', ''trusting'', ''hopeful'', ''moral''],
       [''wholesomememes'', ''UpliftingNews'', ''aww'', ''MadeMeSmile''])]"

definition archetype_names :: "string list" where
  "archetype_names = map fst archetypes"

type_synonym scores = "(string \<times> int) list"

text \<open>\<open>archetype_scores[name] += k\<close>\<close>

definition add_score :: "string \<Rightarrow> int \<Rightarrow> scores \<Rightarrow> scores" where
  "add_score name k sc = map (\<lambda>(a, s). if a = name then (a, s + k) else (a, s)) sc"

definition subreddit_pass :: "string list \<Rightarrow> scores \<Rightarrow> scores" where
  "subreddit_pass active sc =
     foldl (\<lambda>sc (archetype, traits, subreddits).
              foldl (\<lambda>sc subreddit. if lower subreddit \<in> set active then add_score archetype 2 sc else sc)
                    sc subreddits)
           sc archetypes"

definition trait_pass :: "string \<Rightarrow> scores \<Rightarrow> scores" where
  "trait_pass all_text sc =
     foldl (\<lambda>sc (archetype, traits, subreddits).
              foldl (\<lambda>sc trait. add_score archetype (int (rx_count (word_pattern trait) all_text)) sc)
                    sc traits)
           sc archetypes"

definition personality_pass :: "'m personality_dims \<Rightarrow> scores \<Rightarrow> scores" where
  "personality_pass pd sc =
     (let sc1 = (if sc_score (introvert_extrovert pd) < 40
                 then add_score ''The Creator'' 1 (add_score ''The Sage'' 2 sc)
                 else if 60 < sc_score (introvert_extrovert pd)
                 then add_score ''The Lover'' 1 (add_score ''The Hero'' 1 (add_score ''The Jester'' 2 sc))
                 else sc);
          sc2 = (if sc_score (intuition_sensing pd) < 40
                 then add_score ''The Creator'' 1 (add_score ''The Magician'' 2 sc1)
                 else if 60 < sc_score (intuition_sensing pd)
                 then add_score ''The Caregiver'' 1 (add_score ''The Everyman'' 2 sc1)
                 else sc1);
          sc3 = (if sc_score (feeling_thinking pd) < 40
                 then add_score ''The Innocent'' 1
                        (add_score ''The Caregiver'' 2 (add_score ''The Lover'' 2 sc2))
                 else if 60 < sc_score (feeling_thinking pd)
                 then add_score ''The Sage'' 2 (add_score ''The Ruler'' 2 sc2)
                 else sc2)
      in if sc_score (perceiving_judging pd) < 40
         then add_score ''The Rebel'' 1 (add_score ''The Explorer'' 2 sc3)
         else if 60 < sc_score (perceiving_judging pd)
         then add_score ''The Hero'' 1 (add_score ''The Ruler'' 2 sc3)
         else sc3)"

definition facts_text :: "'m persona \<Rightarrow> string" where
  "facts_text p =
     concat (map (\<lambda>f. lower (description f) @ '' '')
                 (behavior_and_habits p @ frustrations p @ goals_and_needs p))"

definition archetype_scores :: "'m persona \<Rightarrow> scores" where
  "archetype_scores p =
     personality_pass (personality p)
       (trait_pass (facts_text p)
          (subreddit_pass (map (\<lambda>s. lower (fst s)) (active_subreddits (activity_of p)))
             (map (\<lambda>a. (fst a, 0)) archetypes)))"

text \<open>\<open>max(items, key=...)\<close>: an item replaces the best so far only when its key is greater.\<close>

fun max_by_score :: "string \<times> int \<Rightarrow> scores \<Rightarrow> string \<times> int" where
  "max_by_score best [] = best"
| "max_by_score best (x # xs) = max_by_score (if snd best < snd x then x else best) xs"

definition top_archetype :: "scores \<Rightarrow> string" where
  "top_archetype sc = (case sc of [] \<Rightarrow> [] | x # xs \<Rightarrow> fst (max_by_score x xs))"

definition determine_archetype :: "'m persona \<Rightarrow> string" where
  "determine_archetype p = top_archetype (archetype_scores p)"

section \<open>The entry point\<close>

definition str_or_empty :: "string option \<Rightarrow> string" where
  "str_or_empty v = (case v of None \<Rightarrow> [] | Some s \<Rightarrow> s)"

definition int_or_zero :: "int option \<Rightarrow> int" where
  "int_or_zero v = (case v of None \<Rightarrow> 0 | Some i \<Rightarrow> i)"

definition bool_or_false :: "bool option \<Rightarrow> bool" where
  "bool_or_false v = (case v of None \<Rightarrow> False | Some b \<Rightarrow> b)"

definition post_item :: "post \<Rightarrow> text_item" where
  "post_item p =
     \<lparr>ti_text = str_or_empty (post_title p) @ '' '' @ str_or_empty (post_text p),
      ti_source = ''post'',
      ti_url = str_or_empty (post_url p),
      ti_subreddit = str_or_empty (post_subreddit p),
      ti_created_utc = str_or_empty (post_created_utc p),
      ti_score = int_or_zero (post_score p)\<rparr>"

definition comment_item :: "comment \<Rightarrow> text_item" where
  "comment_item c =
     \<lparr>ti_text = str_or_empty (comment_body c),
      ti_source = ''comment'',
      ti_url = str_or_empty (comment_url c),
      ti_subreddit = str_or_empty (comment_subreddit c),
      ti_created_utc = str_or_empty (comment_created_utc c),
      ti_score = int_or_zero (comment_score c)\<rparr>"

definition all_text_items :: "post list \<Rightarrow> comment list \<Rightarrow> text_item list" where
  "all_text_items posts comments = map post_item posts @ map comment_item comments"

definition no_user_info :: user_info where
  "no_user_info =
     \<lparr>ui_name = None, ui_created_utc = None, ui_comment_karma = None, ui_link_karma = None,
      ui_is_gold = None, ui_is_mod = None\<rparr>"

definition posts_of :: "user_data \<Rightarrow> post list" where
  "posts_of ud = (case ud_posts ud of None \<Rightarrow> [] | Some ps \<Rightarrow> ps)"

definition comments_of :: "user_data \<Rightarrow> comment list" where
  "comments_of ud = (case ud_comments ud of None \<Rightarrow> [] | Some cs \<Rightarrow> cs)"

definition user_info_of :: "user_data \<Rightarrow> user_info" where
  "user_info_of ud = (case ud_user_info ud of None \<Rightarrow> no_user_info | Some ui \<Rightarrow> ui)"

text \<open>
  The persona before the archetype is set (its \<open>archetype\<close> is still the empty string),
  from the user info, the posts and comments, the posting frequency and the text items.
\<close>

definition build_persona ::
  "env \<Rightarrow> user_info \<Rightarrow> post list \<Rightarrow> comment list \<Rightarrow> posting_frequency
     \<Rightarrow> 'm text_item_scheme list \<Rightarrow> 'm persona" where
  "build_persona e ui posts comments pf items =
     \<lparr>basic =
        \<lparr>username = str_or_empty (ui_name ui),
         account_age = calculate_account_age e (ui_created_utc ui),
         karma = int_or_zero (ui_comment_karma ui) + int_or_zero (ui_link_karma ui),
         is_gold = bool_or_false (ui_is_gold ui),
         is_mod = bool_or_false (ui_is_mod ui),
         detected_demographics = extract_demographics items\<rparr>,
      activity_of =
        \<lparr>total_posts = length posts,
         total_comments = length comments,
         active_subreddits = get_active_subreddits posts comments,
         posting_freq = pf\<rparr>,
      behavior_and_habits = extract_behaviors_and_habits e items,
      frustrations = extract_frustrations e items,
      motivations = extract_motivations e items,
      goals_and_needs = extract_goals_and_needs e items,
      personality = analyze_personality items,
      archetype = []\<rparr>"

definition persona_of :: "env \<Rightarrow> user_data \<Rightarrow> posting_frequency \<Rightarrow> unit persona" where
  "persona_of e ud pf =
     build_persona e (user_info_of ud) (posts_of ud) (comments_of ud) pf
       (all_text_items (posts_of ud) (comments_of ud))"

definition analyze :: "env \<Rightarrow> py_value \<Rightarrow> py_error + unit persona" where
  "analyze e v =
     (case v of
        PyOther \<Rightarrow> Inl AttributeError
      | PyDict ud \<Rightarrow>
          (case analyze_posting_frequency e (posts_of ud) (comments_of ud) of
             Inl err \<Rightarrow> Inl err
           | Inr pf \<Rightarrow>
               let p = persona_of e ud pf
               in Inr (p\<lparr>archetype := determine_archetype p\<rparr>)))"

section \<open>The input as objects of a store\<close>

text \<open>
  The dictionaries and lists of the input are objects of a store, a list of objects in
  which an address is an index. The dictionary \<open>user_data\<close> refers to its three collections
  by address, and the lists of posts and comments hold the addresses of their elements.
\<close>

record user_refs =
  ref_user_info :: "nat option"
  ref_posts :: "nat option"
  ref_comments :: "nat option"

datatype obj =
    PostObj post
  | CommentObj comment
  | InfoObj user_info
  | ListObj "nat list"
  | DataObj user_refs
  | ItemObj text_item
  | OtherObj

type_synonym store = "obj list"

definition lookup :: "store \<Rightarrow> nat \<Rightarrow> obj" where
  "lookup s a = (if a < length s then s ! a else OtherObj)"

text \<open>A text item together with the address of its dictionary.\<close>

record item_ref = text_item +
  ti_addr :: nat

type_synonym located = "unit item_ref_ext"

definition at_address :: "nat \<Rightarrow> text_item \<Rightarrow> item_ref" where
  "at_address a v =
     \<lparr>ti_text = ti_text v, ti_source = ti_source v, ti_url = ti_url v,
      ti_subreddit = ti_subreddit v, ti_created_utc = ti_created_utc v, ti_score = ti_score v,
      ti_addr = a\<rparr>"

definition read_info :: "store \<Rightarrow> nat option \<Rightarrow> user_info option" where
  "read_info s r =
     (case r of
        None \<Rightarrow> Some no_user_info
      | Some a \<Rightarrow> (case lookup s a of InfoObj ui \<Rightarrow> Some ui | _ \<Rightarrow> None))"

definition read_list :: "store \<Rightarrow> nat option \<Rightarrow> nat list option" where
  "read_list s r =
     (case r of
        None \<Rightarrow> Some []
      | Some a \<Rightarrow> (case lookup s a of ListObj as \<Rightarrow> Some as | _ \<Rightarrow> None))"

definition read_post :: "store \<Rightarrow> nat \<Rightarrow> post option" where
  "read_post s a = (case lookup s a of PostObj p \<Rightarrow> Some p | _ \<Rightarrow> None)"

definition read_comment :: "store \<Rightarrow> nat \<Rightarrow> comment option" where
  "read_comment s a = (case lookup s a of CommentObj c \<Rightarrow> Some c | _ \<Rightarrow> None)"

definition read_posts :: "store \<Rightarrow> nat option \<Rightarrow> post list option" where
  "read_posts s r = (case read_list s r of None \<Rightarrow> None | Some as \<Rightarrow> those (map (read_post s) as))"

definition read_comments :: "store \<Rightarrow> nat option \<Rightarrow> comment list option" where
  "read_comments s r =
     (case read_list s r of None \<Rightarrow> None | Some as \<Rightarrow> those (map (read_comment s) as))"

text \<open>
  \<open>all_text_items.append({...})\<close>: each text item is a new dictionary, at the next free
  address of the store.
\<close>

definition allocate :: "store \<Rightarrow> text_item list \<Rightarrow> item_ref list \<times> store" where
  "allocate s vs =
     (map (\<lambda>(k, v). at_address k v) (enumerate (length s) vs), s @ map ItemObj vs)"

text \<open>
  \<open>analyze\<close> on a store: the argument is an address, the result is the persona, whose
  citations are references to text items, and the store after the call. Every access to a
  dictionary of the input is a \<open>get\<close>, which reads; the only writes of \<open>analyze\<close> go to
  objects that it has created itself.
\<close>

definition analyze_in_store ::
  "env \<Rightarrow> store \<Rightarrow> nat \<Rightarrow> (py_error + located persona) \<times> store" where
  "analyze_in_store e s a =
     (case lookup s a of
        DataObj d \<Rightarrow>
          (case (read_info s (ref_user_info d), read_posts s (ref_posts d),
                 read_comments s (ref_comments d)) of
             (Some ui, Some posts, Some comments) \<Rightarrow>
               (case analyze_posting_frequency e posts comments of
                  Inl err \<Rightarrow> (Inl err, s)
                | Inr pf \<Rightarrow>
                    let (items, s') = allocate s (all_text_items posts comments);
                        p = build_persona e ui posts comments pf items
                    in (Inr (p\<lparr>archetype := determine_archetype p\<rparr>), s'))
           | _ \<Rightarrow> (Inl AttributeError, s))
      | _ \<Rightarrow> (Inl AttributeError, s))"

text \<open>All citations of a persona.\<close>

definition field_citation :: "('a, 'm) dfield \<Rightarrow> 'm text_item_scheme list" where
  "field_citation f = (case df_citation f of None \<Rightarrow> [] | Some c \<Rightarrow> [c])"

definition persona_citations :: "'m persona \<Rightarrow> 'm text_item_scheme list" where
  "persona_citations p =
     (let d = detected_demographics (basic p)
      in field_citation (d_age d) @ field_citation (d_location d) @ field_citation (d_occupation d)
         @ field_citation (d_status d)
         @ map citation (behavior_and_habits p) @ map citation (frustrations p)
         @ map citation (goals_and_needs p)
         @ concat (map (\<lambda>m. sc_citations (snd m)) (motivations p))
         @ sc_citations (introvert_extrovert (personality p))
         @ sc_citations (intuition_sensing (personality p))
         @ sc_citations (feeling_thinking (personality p))
         @ sc_citations (perceiving_judging (personality p)))"

section \<open>Sample inputs\<close>

text \<open>
  A concrete environment and a small corpus, on which the theorems below are instantiated:
  a parser that knows two timestamps, a sentiment scorer that reacts to three words, and a
  tokenizer that splits at white space.
\<close>

definition naive_noon :: datetime where
  "naive_noon =
     \<lparr>dt_aware = False, dt_micros = 1704110400000000, dt_weekday = ''Monday'', dt_hour = 12\<rparr>"

definition aware_noon :: datetime where
  "aware_noon =
     \<lparr>dt_aware = True, dt_micros = 1704110400000000, dt_weekday = ''Monday'', dt_hour = 12\<rparr>"

definition demo_fromisoformat :: "string \<Rightarrow> datetime option" where
  "demo_fromisoformat s =
     (if s = ''2024-01-01T12:00:00'' then Some naive_noon
      else if s = ''2024-01-01T12:00:00+00:00'' then Some aware_noon
      else None)"

fun toks :: "string \<Rightarrow> string \<Rightarrow> string list" where
  "toks w [] = (if w = [] then [] else [w])"
| "toks w (c # cs) =
     (if is_space c then (if w = [] then toks [] cs else w # toks [] cs) else toks (w @ [c]) cs)"

definition demo_tokenize :: "string \<Rightarrow> string list" where
  "demo_tokenize s = toks [] s"

definition demo_neg :: "string \<Rightarrow> rat" where
  "demo_neg s = (if contains ''hate'' s then 1 / 2 else 0)"

definition demo_pos :: "string \<Rightarrow> rat" where
  "demo_pos s = (if contains ''love'' s \<or> contains ''like'' s then 1 / 2 else 0)"

definition demo_env :: env where
  "demo_env =
     \<lparr>fromisoformat = demo_fromisoformat,
      now = \<lparr>dt_aware = False, dt_micros = 1767268800000000, dt_weekday = ''Thursday'',
             dt_hour = 12\<rparr>,
      polarity_neg = demo_neg,
      polarity_pos = demo_pos,
      word_tokenize = demo_tokenize,
      stop_words = [''i'', ''a'', ''the'', ''to'', ''and'', ''is'', ''it'', ''should'', ''not'', ''be'',
                    ''doing'', ''this'']\<rparr>"

definition post1 :: post where
  "post1 =
     \<lparr>post_title = Some ''Hello'',
      post_text = Some ''I always check prices before buying anything. I'm 25 years old and I live in Seattle.'',
      post_url = None, post_subreddit = Some ''AskScience'',
      post_created_utc = Some ''2024-01-01T12:00:00'', post_score = Some 3\<rparr>"

definition comment1 :: comment where
  "comment1 =
     \<lparr>comment_body = Some ''I hate waiting in long lines at the store! quiet social social'',
      comment_url = None, comment_subreddit = Some ''funny'',
      comment_created_utc = Some ''yesterday'', comment_score = None\<rparr>"

definition ud1 :: user_data where
  "ud1 = \<lparr>ud_user_info = None, ud_posts = Some [post1], ud_comments = Some [comment1]\<rparr>"

definition empty_dict :: user_data where
  "empty_dict = \<lparr>ud_user_info = None, ud_posts = None, ud_comments = None\<rparr>"

definition item_of :: "string \<Rightarrow> text_item" where
  "item_of t =
     \<lparr>ti_text = t, ti_source = ''comment'', ti_url = [], ti_subreddit = [], ti_created_utc = [],
      ti_score = 0\<rparr>"

definition mot_item :: text_item where
  "mot_item = item_of ''I love easy simple meals. I like fast food''"

text \<open>
  A persona with 12 items in \<open>AskScience\<close> and 3 in \<open>funny\<close>, no facts and neutral
  personality scores.
\<close>

definition tie_persona :: "unit persona" where
  "tie_persona =
     \<lparr>basic = \<lparr>username = [], account_age = ''Unknown'', karma = 0, is_gold = False, is_mod = False,
                detected_demographics = extract_demographics []\<rparr>,
      activity_of = \<lparr>total_posts = 12, total_comments = 3,
                     active_subreddits = [(''AskScience'', 12), (''funny'', 3)],
                     posting_freq = \<lparr>activity_level = ''Unknown'', most_active_days = [],
                                     most_active_hours = []\<rparr>\<rparr>,
      behavior_and_habits = [], frustrations = [], motivations = [], goals_and_needs = [],
      personality = analyze_personality [], archetype = []\<rparr>"

definition boundary_items :: "text_item list" where
  "boundary_items = [item_of ''I am 12 years old'', item_of ''I'm 91 years old.'',
                     item_of ''Well, I am 13 years old!'', item_of ''i'm 90 yo'']"

definition two_ages :: "text_item list" where
  "two_ages = [item_of ''I'm 99 years old. I'm 25 years old.'', item_of ''I'm 30 years old'']"


text \<open>
  Two texts that differ in their first word, \<open>U+00DF\<close> followed by \<open>x\<close> in one and \<open>ssx\<close> in
  the other.
\<close>

definition sharp_items :: "text_item list" where
  "sharp_items =
     [item_of (CHR 0xDF # ''x always eats apples''), item_of ''ssx always eats apples'']"

definition calm_item :: text_item where
  "calm_item = item_of ''It is annoying to wait here every day''"

definition angry_item :: text_item where
  "angry_item = item_of ''This is so annoying and I hate it when that happens''"

definition quiet_item :: text_item where
  "quiet_item = item_of ''Quiet but social, very social''"

definition mixed_post :: post where
  "mixed_post = post1\<lparr>post_created_utc := Some ''2024-01-01T12:00:00+00:00''\<rparr>"

definition mixed_dict :: user_data where
  "mixed_dict = \<lparr>ud_user_info = None, ud_posts = Some [post1, mixed_post], ud_comments = None\<rparr>"


text \<open>A store with one post and one comment, and the dictionary \<open>user_data\<close> at address 0.\<close>

definition short_post :: post where
  "short_post =
     \<lparr>post_title = Some ''Hi'', post_text = Some ''I'm 25 years old'', post_url = None,
      post_subreddit = None, post_created_utc = None, post_score = None\<rparr>"

definition short_comment :: comment where
  "short_comment =
     \<lparr>comment_body = Some ''I love easy meals'', comment_url = None, comment_subreddit = None,
      comment_created_utc = None, comment_score = None\<rparr>"

definition store2 :: store where
  "store2 =
     [DataObj \<lparr>ref_user_info = None, ref_posts = Some 1, ref_comments = Some 2\<rparr>,
      ListObj [3], ListObj [4], PostObj short_post, CommentObj short_comment]"

section \<open>Notions of the specification\<close>

text \<open>An item has a parseable timestamp: the field is present, not empty, and accepted by the parser.\<close>

definition parseable :: "env \<Rightarrow> string option \<Rightarrow> bool" where
  "parseable e v = (case v of None \<Rightarrow> False | Some s \<Rightarrow> s \<noteq> [] \<and> fromisoformat e s \<noteq> None)"

definition timestamped :: "env \<Rightarrow> post list \<Rightarrow> comment list \<Rightarrow> nat" where
  "timestamped e posts comments =
     length (filter (\<lambda>p. parseable e (post_created_utc p)) posts)
     + length (filter (\<lambda>c. parseable e (comment_created_utc c)) comments)"

text \<open>
  The raw evidence counter of a motivation category, and the divisor of the normalization:
  the largest of the six counters, or 1 when all of them are 0.
\<close>

definition raw_count :: "env \<Rightarrow> 'm text_item_scheme list \<Rightarrow> string \<Rightarrow> int" where
  "raw_count e items category = sc_score (raw_motivations e items category)"

definition divisor :: "env \<Rightarrow> 'm text_item_scheme list \<Rightarrow> int" where
  "divisor e items =
     (if \<forall>c \<in> set motivation_names. raw_count e items c = 0 then 1
      else Max (raw_count e items ` set motivation_names))"

text \<open>The age that the first match of the age pattern in an item gives, when it is in range.\<close>

definition in_range :: "nat \<Rightarrow> bool" where
  "in_range age = (13 \<le> age \<and> age \<le> 90)"

definition age_candidate :: "'m text_item_scheme \<Rightarrow> nat option" where
  "age_candidate item =
     (case rx_search age_pattern None (ti_text item) of
        None \<Rightarrow> None
      | Some m \<Rightarrow> (case m_group m of
                     None \<Rightarrow> None
                   | Some g \<Rightarrow> if in_range (int_of_digits g) then Some (int_of_digits g) else None))"

text \<open>
  The reading of the specification: every match of the age pattern in the corpus, in corpus
  order, and the first of them whose age is in range.
\<close>

definition age_matches :: "'m text_item_scheme list \<Rightarrow> (nat \<times> 'm text_item_scheme) list" where
  "age_matches items =
     concat (map (\<lambda>item. map (\<lambda>m. (int_of_digits (case m_group m of None \<Rightarrow> [] | Some g \<Rightarrow> g), item))
                              (rx_finditer age_pattern None (ti_text item))) items)"

definition first_qualifying_match :: "'m text_item_scheme list \<Rightarrow> (nat \<times> 'm text_item_scheme) option" where
  "first_qualifying_match items = find (\<lambda>m. in_range (fst m)) (age_matches items)"





text \<open>
  A fact comes from strategy (a) on its item: its description is a sentence of the item that
  holds a keyword and is longer than the minimum. A fact comes from strategy (b) on its
  item: its description is a candidate of a template, longer than 10.
\<close>

definition by_keywords :: "string list \<Rightarrow> nat \<Rightarrow> 'm fact \<Rightarrow> bool" where
  "by_keywords keywords min_len f =
     (let text = lower (ti_text (citation f))
      in \<exists>keyword \<in> set keywords. \<exists>sentence \<in> set (split_sentences text).
           contains keyword text \<and> contains keyword sentence \<and> min_len < length sentence
           \<and> description f = capitalize (strip sentence))"

definition by_templates :: "string list \<Rightarrow> (string \<Rightarrow> string) \<Rightarrow> 'm fact \<Rightarrow> bool" where
  "by_templates phrases mk f =
     (\<exists>cand \<in> set (template_candidates phrases mk (lower (ti_text (citation f)))).
        10 < length cand \<and> description f = capitalize (strip cand))"

definition frustration_source :: "env \<Rightarrow> 'm text_item_scheme list \<Rightarrow> 'm fact \<Rightarrow> bool" where
  "frustration_source e items f =
     (citation f \<in> set items
      \<and> ((negative e (lower (ti_text (citation f))) \<and> by_keywords frustration_keywords 15 f)
         \<or> by_templates frustration_patterns (\<lambda>m. m) f))"

text \<open>
  The number of word-bounded, case-insensitive occurrences of the keywords of a list in the
  lowercased text of the whole corpus.
\<close>

definition keyword_count :: "string list \<Rightarrow> 'm text_item_scheme list \<Rightarrow> int" where
  "keyword_count keywords items =
     sum_list (map (\<lambda>keyword. int (rx_count (word_pattern keyword) (all_text_of items))) keywords)"

text \<open>The score of the specification: the percentage rounded to the nearest integer.\<close>

definition rounded_score :: "int \<Rightarrow> int \<Rightarrow> int" where
  "rounded_score left_count right_count =
     (if left_count + right_count = 0 then 50
      else round_even (100 * of_int right_count / of_int (left_count + right_count)))"

text \<open>The citations of a result all lie in a set of items.\<close>

definition field_from :: "'m text_item_scheme set \<Rightarrow> ('a, 'm) dfield \<Rightarrow> bool" where
  "field_from S f = (set (field_citation f) \<subseteq> S)"

definition facts_from :: "'m text_item_scheme set \<Rightarrow> 'm miner \<Rightarrow> bool" where
  "facts_from S st = (citation ` set (snd st) \<subseteq> S)"

section \<open>Auxiliary facts\<close>

text \<open>
  The character classes and case mappings on the bits of a character. These equations are
  what the evaluation of the definitions on concrete texts runs on.
\<close>

lemma is_upper_code [code]:
  "is_upper (Char b0 b1 b2 b3 b4 b5 b6 b7) =
     (\<not> b7 \<and> b6 \<and> \<not> b5 \<and> (b0 \<or> b1 \<or> b2 \<or> b3 \<or> b4) \<and> \<not> (b4 \<and> b3 \<and> (b2 \<or> (b1 \<and> b0))))"
  by (cases b0; cases b1; cases b2; cases b3; cases b4; cases b5; cases b6; cases b7)
     (simp_all add: is_upper_def)

lemma is_lower_code [code]:
  "is_lower (Char b0 b1 b2 b3 b4 b5 b6 b7) =
     (\<not> b7 \<and> b6 \<and> b5 \<and> (b0 \<or> b1 \<or> b2 \<or> b3 \<or> b4) \<and> \<not> (b4 \<and> b3 \<and> (b2 \<or> (b1 \<and> b0))))"
  by (cases b0; cases b1; cases b2; cases b3; cases b4; cases b5; cases b6; cases b7)
     (simp_all add: is_lower_def)

lemma is_digit_code [code]:
  "is_digit (Char b0 b1 b2 b3 b4 b5 b6 b7) =
     (\<not> b7 \<and> \<not> b6 \<and> b5 \<and> b4 \<and> \<not> (b3 \<and> (b2 \<or> b1)))"
  by (cases b0; cases b1; cases b2; cases b3; cases b4; cases b5; cases b6; cases b7)
     (simp_all add: is_digit_def)

lemma is_space_code [code]:
  "is_space (Char b0 b1 b2 b3 b4 b5 b6 b7) =
     (if b7 then \<not> b6 \<and> \<not> b4 \<and> \<not> b3 \<and> \<not> b1 \<and> ((b5 \<and> \<not> b2 \<and> \<not> b0) \<or> (\<not> b5 \<and> b2 \<and> b0))
      else \<not> b6 \<and>
        ((\<not> b5 \<and> \<not> b4 \<and> b3 \<and> ((\<not> b2 \<and> (b1 \<or> b0)) \<or> (b2 \<and> \<not> b1)))
         \<or> (\<not> b5 \<and> b4 \<and> b3 \<and> b2)
         \<or> (b5 \<and> \<not> b4 \<and> \<not> b3 \<and> \<not> b2 \<and> \<not> b1 \<and> \<not> b0)))"
  by (cases b0; cases b1; cases b2; cases b3; cases b4; cases b5; cases b6; cases b7)
     (simp_all add: is_space_def)

lemma latin1_alnum_code [code]:
  "latin1_alnum (Char b0 b1 b2 b3 b4 b5 b6 b7) =
     (b7 \<and>
      (if b6 then \<not> (b4 \<and> \<not> b3 \<and> b2 \<and> b1 \<and> b0)
       else b5 \<and>
         ((\<not> b4 \<and> b3 \<and> \<not> b2 \<and> b1 \<and> \<not> b0)
          \<or> (b4 \<and> \<not> b3 \<and> \<not> b2 \<and> b1)
          \<or> (b4 \<and> \<not> b3 \<and> b2 \<and> \<not> b1 \<and> b0)
          \<or> (b4 \<and> b3 \<and> \<not> b2 \<and> (b1 \<noteq> b0))
          \<or> (b4 \<and> b3 \<and> b2 \<and> \<not> (b1 \<and> b0)))))"
  by (cases b0; cases b1; cases b2; cases b3; cases b4; cases b5; cases b6; cases b7)
     (simp_all add: latin1_alnum_def)

lemma latin1_upper_code [code]:
  "latin1_upper (Char b0 b1 b2 b3 b4 b5 b6 b7) = (b7 \<and> b6 \<and> \<not> b5 \<and> \<not> (b4 \<and> b2 \<and> b1 \<and> b0))"
  by (cases b0; cases b1; cases b2; cases b3; cases b4; cases b5; cases b6; cases b7)
     (simp_all add: latin1_upper_def)

lemma latin1_lower_code [code]:
  "latin1_lower (Char b0 b1 b2 b3 b4 b5 b6 b7) = (b7 \<and> b6 \<and> b5 \<and> \<not> (b4 \<and> b2 \<and> b1 \<and> b0))"
  by (cases b0; cases b1; cases b2; cases b3; cases b4; cases b5; cases b6; cases b7)
     (simp_all add: latin1_lower_def)

lemma lower_char_code [code]:
  "lower_char (Char b0 b1 b2 b3 b4 b5 b6 b7) =
     (if is_upper (Char b0 b1 b2 b3 b4 b5 b6 b7) \<or> latin1_upper (Char b0 b1 b2 b3 b4 b5 b6 b7)
      then Char b0 b1 b2 b3 b4 True b6 b7
      else Char b0 b1 b2 b3 b4 b5 b6 b7)"
  by (cases b0; cases b1; cases b2; cases b3; cases b4; cases b5; cases b6; cases b7)
     (simp_all add: lower_char_def is_upper_def latin1_upper_def char_of_def bit_iff_odd)

lemma title_char_code [code]:
  "title_char (Char b0 b1 b2 b3 b4 b5 b6 b7) =
     (if is_lower (Char b0 b1 b2 b3 b4 b5 b6 b7) \<or> latin1_lower (Char b0 b1 b2 b3 b4 b5 b6 b7)
      then [Char b0 b1 b2 b3 b4 False b6 b7]
      else if b0 \<and> b1 \<and> b2 \<and> b3 \<and> b4 \<and> \<not> b5 \<and> b6 \<and> b7 then ''Ss''
      else [Char b0 b1 b2 b3 b4 b5 b6 b7])"
  by (cases b0; cases b1; cases b2; cases b3; cases b4; cases b5; cases b6; cases b7)
     (simp_all add: title_char_def is_lower_def latin1_lower_def char_of_def bit_iff_odd)

lemma foldl_invariant:
  assumes "P s" and "\<And>s x. P s \<Longrightarrow> x \<in> set xs \<Longrightarrow> P (f s x)"
  shows "P (foldl f s xs)"
  using assms by (induction xs arbitrary: s) auto

lemma pow2_pos: "0 < pow2 k"
  by (simp add: pow2_def)

lemma round_even_nonneg: "0 \<le> q \<Longrightarrow> 0 \<le> round_even q"
  by (auto simp: round_even_def Let_def)

lemma rnd_nonneg: "0 \<le> q \<Longrightarrow> 0 \<le> rnd q"
  by (auto simp: rnd_def Let_def round_even_nonneg pow2_pos less_imp_le)

lemma rnd_0: "rnd 0 = 0" by (simp add: rnd_def)
lemma rnd_1: "rnd 1 = 1" by code_simp
lemma rnd_10: "rnd 10 = 10" by code_simp

text \<open>The rounding to a double is monotone, and a percentage lies between 0 and 100.\<close>

lemma pow2_powi: "pow2 k = 2 powi k"
  by (simp add: pow2_def power_int_def power_one_over inverse_eq_divide)

lemma pow2_add: "pow2 (a + b) = pow2 a * pow2 b"
  by (simp add: pow2_powi power_int_add)

lemma pow2_mono: "a \<le> b \<Longrightarrow> pow2 a \<le> pow2 b"
  by (simp add: pow2_powi power_int_increasing)

lemma pow2_strict_mono: "a < b \<Longrightarrow> pow2 a < pow2 b"
  by (simp add: pow2_powi power_int_strict_increasing)

lemma pow2_less_cancel: "pow2 a < pow2 b \<Longrightarrow> a < b"
  using pow2_mono [of b a] by (cases "a < b") auto

lemma pow2_nat: "pow2 (int n) = 2 ^ n"
  by (simp add: pow2_def)

lemma pow2_split52: "pow2 e = 2 ^ 52 * pow2 (e - 52)"
proof -
  have "e = 52 + (e - 52)" by simp
  then have "pow2 e = pow2 (52 + (e - 52))" by (rule arg_cong)
  also have "\<dots> = pow2 52 * pow2 (e - 52)" by (rule pow2_add)
  also have "pow2 52 = 2 ^ 52" by (simp add: pow2_def)
  finally show ?thesis .
qed

lemma pow2_split53: "pow2 (e + 1) = 2 ^ 53 * pow2 (e - 52)"
proof -
  have "e + 1 = 53 + (e - 52)" by simp
  then have "pow2 (e + 1) = pow2 (53 + (e - 52))" by (rule arg_cong)
  also have "\<dots> = pow2 53 * pow2 (e - 52)" by (rule pow2_add)
  also have "pow2 53 = 2 ^ 53" by (simp add: pow2_def)
  finally show ?thesis .
qed

lemma expo_bounds:
  assumes "0 < q"
  shows "pow2 (expo q) \<le> q \<and> q < pow2 (expo q + 1)"
proof -
  obtain a b where ab: "quotient_of q = (a, b)" by (cases "quotient_of q")
  then have b: "0 < b" and q: "q = of_int a / of_int b"
    using quotient_of_denom_pos quotient_of_div by auto
  from assms q b have a: "0 < a" by (simp add: zero_less_divide_iff)
  define la where "la = bitlen a"
  define lb where "lb = bitlen b"
  have la1: "1 \<le> la" and lb1: "1 \<le> lb"
    using a b by (auto simp: la_def lb_def bitlen_alt_def)
  have ba: "2 ^ nat (la - 1) \<le> a" "a < 2 ^ nat la"
    using bitlen_bounds [OF a] by (simp_all add: la_def)
  have bb: "2 ^ nat (lb - 1) \<le> b" "b < 2 ^ nat lb"
    using bitlen_bounds [OF b] by (simp_all add: lb_def)
  have ra: "pow2 (la - 1) \<le> of_int a" "(of_int a :: rat) < pow2 la"
  proof -
    have "(of_int (2 ^ nat (la - 1)) :: rat) \<le> of_int a" using ba(1) by (simp only: of_int_le_iff)
    then show "pow2 (la - 1) \<le> of_int a" using la1 by (simp add: pow2_def)
    have "(of_int a :: rat) < of_int (2 ^ nat la)" using ba(2) by (simp only: of_int_less_iff)
    then show "(of_int a :: rat) < pow2 la" using la1 by (simp add: pow2_def)
  qed
  have rb: "pow2 (lb - 1) \<le> of_int b" "(of_int b :: rat) < pow2 lb"
  proof -
    have "(of_int (2 ^ nat (lb - 1)) :: rat) \<le> of_int b" using bb(1) by (simp only: of_int_le_iff)
    then show "pow2 (lb - 1) \<le> of_int b" using lb1 by (simp add: pow2_def)
    have "(of_int b :: rat) < of_int (2 ^ nat lb)" using bb(2) by (simp only: of_int_less_iff)
    then show "(of_int b :: rat) < pow2 lb" using lb1 by (simp add: pow2_def)
  qed
  have bpos: "(0 :: rat) < of_int b" using b by simp
  have lo: "pow2 (la - lb - 1) < q"
  proof -
    have "pow2 (la - lb - 1) * of_int b < pow2 (la - lb - 1) * pow2 lb"
      using rb(2) pow2_pos [of "la - lb - 1"] by (simp only: mult_strict_left_mono)
    also have "\<dots> = pow2 (la - 1)" by (simp add: pow2_add [symmetric])
    also have "\<dots> \<le> of_int a" by (rule ra(1))
    finally show ?thesis using bpos by (simp add: q pos_less_divide_eq)
  qed
  have hi: "q < pow2 (la - lb + 1)"
  proof -
    have "of_int a < pow2 la" by (rule ra(2))
    also have "\<dots> = pow2 (la - lb + 1) * pow2 (lb - 1)" by (simp add: pow2_add [symmetric])
    also have "\<dots> \<le> pow2 (la - lb + 1) * of_int b"
      using rb(1) pow2_pos [of "la - lb + 1"] by (simp only: mult_left_mono less_imp_le)
    finally show ?thesis using bpos by (simp add: q pos_divide_less_eq)
  qed
  have e: "expo q = (if pow2 (la - lb) \<le> q then la - lb else la - lb - 1)"
    by (simp add: expo_def ab la_def lb_def)
  show ?thesis
  proof (cases "pow2 (la - lb) \<le> q")
    case True
    then show ?thesis using hi e by simp
  next
    case False
    then show ?thesis using lo e by simp
  qed
qed

lemma round_even_cases: "round_even q = \<lfloor>q\<rfloor> \<or> round_even q = \<lfloor>q\<rfloor> + 1"
  by (simp add: round_even_def Let_def)

lemma round_even_of_int: "round_even (of_int n) = n"
  by (simp add: round_even_def Let_def)

lemma round_even_mono:
  assumes "x \<le> y"
  shows "round_even x \<le> round_even y"
proof (cases "\<lfloor>x\<rfloor> = \<lfloor>y\<rfloor>")
  case True
  have "x - of_int \<lfloor>x\<rfloor> \<le> y - of_int \<lfloor>y\<rfloor>" using assms True by simp
  then show ?thesis using True by (auto simp: round_even_def Let_def)
next
  case False
  then have "\<lfloor>x\<rfloor> < \<lfloor>y\<rfloor>" using floor_mono [OF assms] by simp
  then have "\<lfloor>x\<rfloor> + 1 \<le> \<lfloor>y\<rfloor>" by simp
  moreover have "round_even x \<le> \<lfloor>x\<rfloor> + 1" using round_even_cases [of x] by auto
  moreover have "\<lfloor>y\<rfloor> \<le> round_even y" using round_even_cases [of y] by auto
  ultimately show ?thesis by linarith
qed

text \<open>The rounding of a positive number at the scale of its exponent.\<close>

lemma rnd_pos: "0 < q \<Longrightarrow> rnd q = of_int (round_even (q / pow2 (expo q - 52))) * pow2 (expo q - 52)"
  by (simp add: rnd_def Let_def)

lemma scaled_bounds:
  assumes "0 < q"
  shows "2 ^ 52 \<le> q / pow2 (expo q - 52) \<and> q / pow2 (expo q - 52) \<le> 2 ^ 53"
proof -
  have p: "0 < pow2 (expo q - 52)" by (rule pow2_pos)
  have "2 ^ 52 * pow2 (expo q - 52) \<le> q" "q \<le> 2 ^ 53 * pow2 (expo q - 52)"
    using expo_bounds [OF assms] pow2_split52 [of "expo q"] pow2_split53 [of "expo q"] by simp_all
  then show ?thesis
    using p by (simp add: pos_le_divide_eq pos_divide_le_eq)
qed

lemma rnd_bounds:
  assumes "0 < q"
  shows "pow2 (expo q) \<le> rnd q \<and> rnd q \<le> pow2 (expo q + 1)"
proof -
  let ?s = "pow2 (expo q - 52)"
  let ?m = "q / ?s"
  have p: "0 < ?s" by (rule pow2_pos)
  have "round_even (of_int (2 ^ 52)) \<le> round_even ?m"
    using scaled_bounds [OF assms] by (intro round_even_mono) simp
  then have lo: "2 ^ 52 \<le> round_even ?m" by (simp only: round_even_of_int)
  have "round_even ?m \<le> round_even (of_int (2 ^ 53))"
    using scaled_bounds [OF assms] by (intro round_even_mono) simp
  then have hi: "round_even ?m \<le> 2 ^ 53" by (simp only: round_even_of_int)
  have a: "pow2 (expo q) = 2 ^ 52 * ?s" by (rule pow2_split52)
  have b: "pow2 (expo q + 1) = 2 ^ 53 * ?s" by (rule pow2_split53)
  have "(2 ^ 52 :: rat) \<le> of_int (round_even ?m)"
    using lo by (metis of_int_le_iff of_int_numeral of_int_power)
  then have l: "2 ^ 52 * ?s \<le> of_int (round_even ?m) * ?s"
    using p by (simp only: mult_right_mono less_imp_le)
  have "(of_int (round_even ?m) :: rat) \<le> 2 ^ 53"
    using hi by (metis of_int_le_iff of_int_numeral of_int_power)
  then have h: "of_int (round_even ?m) * ?s \<le> 2 ^ 53 * ?s"
    using p by (simp only: mult_right_mono less_imp_le)
  show ?thesis using l h by (simp only: rnd_pos [OF assms] a b)
qed

lemma expo_mono:
  assumes "0 < x" "x \<le> y"
  shows "expo x \<le> expo y"
proof -
  have "pow2 (expo x) \<le> x" using expo_bounds [OF assms(1)] by simp
  also have "x \<le> y" by (rule assms(2))
  also have "y < pow2 (expo y + 1)" using expo_bounds [of y] assms by simp
  finally have "expo x < expo y + 1" by (rule pow2_less_cancel)
  then show ?thesis by simp
qed

lemma rnd_mono_pos:
  assumes "0 < x" "x \<le> y"
  shows "rnd x \<le> rnd y"
proof (cases "expo x = expo y")
  case True
  let ?s = "pow2 (expo y - 52)"
  have p: "0 < ?s" by (rule pow2_pos)
  have "x / ?s \<le> y / ?s" using assms(2) p by (simp add: divide_right_mono less_imp_le)
  then have "round_even (x / ?s) \<le> round_even (y / ?s)" by (rule round_even_mono)
  then have "(of_int (round_even (x / ?s)) :: rat) \<le> of_int (round_even (y / ?s))"
    by (simp only: of_int_le_iff)
  then have "of_int (round_even (x / ?s)) * ?s \<le> of_int (round_even (y / ?s)) * ?s"
    using p by (simp only: mult_right_mono less_imp_le)
  then show ?thesis using assms True by (simp add: rnd_pos)
next
  case False
  then have "expo x + 1 \<le> expo y" using expo_mono [OF assms] by simp
  then have "pow2 (expo x + 1) \<le> pow2 (expo y)" by (rule pow2_mono)
  moreover have "rnd x \<le> pow2 (expo x + 1)" using rnd_bounds [OF assms(1)] by simp
  moreover have "pow2 (expo y) \<le> rnd y" using rnd_bounds [of y] assms by simp
  ultimately show ?thesis by linarith
qed

lemma rnd_mono: "0 \<le> x \<Longrightarrow> x \<le> y \<Longrightarrow> rnd x \<le> rnd y"
  using rnd_mono_pos [of x y] rnd_nonneg [of y] by (cases "x = 0") (auto simp: rnd_0)

lemma rnd_100: "rnd 100 = 100" by code_simp

lemma percentage_bounds:
  assumes "0 \<le> r" "r \<le> t" "0 < t"
  shows "0 \<le> percentage r t \<and> percentage r t \<le> 100"
proof -
  let ?x = "fdiv r t"
  have q: "(0 :: rat) \<le> of_int r / of_int t" "(of_int r / of_int t :: rat) \<le> 1"
    using assms by simp_all
  have x0: "0 \<le> ?x" unfolding fdiv_def by (rule rnd_nonneg [OF q(1)])
  have x1: "?x \<le> 1" unfolding fdiv_def using rnd_mono [OF q] by (simp add: rnd_1)
  have y0: "0 \<le> fmul ?x 100" unfolding fmul_def using x0 by (intro rnd_nonneg) simp
  have "rnd (?x * 100) \<le> rnd 100" using x0 x1 by (intro rnd_mono) simp_all
  then have y1: "fmul ?x 100 \<le> 100" by (simp add: fmul_def rnd_100)
  have "\<lfloor>fmul ?x 100\<rfloor> \<le> 100" using y1 by (simp add: floor_le_iff)
  moreover have "0 \<le> \<lfloor>fmul ?x 100\<rfloor>" using y0 by simp
  ultimately show ?thesis using y0 by (simp add: percentage_def py_int_def)
qed

text \<open>An invariant of the facts of a miner is kept by both strategies.\<close>

lemma accept_facts:
  assumes "\<forall>f \<in> set (snd st). Q f" and "Q \<lparr>description = capitalize (strip cand), citation = item\<rparr>"
  shows "\<forall>f \<in> set (snd (accept e item cand st)). Q f"
  using assms by (auto simp: accept_def add_fact_def)

lemma keyword_scan_facts:
  fixes st :: "'m miner"
  assumes "\<forall>f \<in> set (snd st). Q f"
    and "\<And>f. citation f = item \<Longrightarrow> by_keywords kws n f \<Longrightarrow> Q f"
  shows "\<forall>f \<in> set (snd (keyword_scan e kws n item (lower (ti_text item)) st)). Q f"
  unfolding keyword_scan_def
proof (rule foldl_invariant [where P = "\<lambda>st. \<forall>f \<in> set (snd st). Q f"])
  show "\<forall>f \<in> set (snd st). Q f" by (rule assms(1))
next
  fix s :: "'m miner" and kw
  assume s: "\<forall>f \<in> set (snd s). Q f" and kw: "kw \<in> set kws"
  show "\<forall>f \<in> set (snd (if contains kw (lower (ti_text item))
           then foldl (\<lambda>st sentence. if contains kw sentence \<and> n < length sentence
                        then accept e item sentence st else st) s (split_sentences (lower (ti_text item)))
           else s)). Q f"
  proof (cases "contains kw (lower (ti_text item))")
    case False
    then show ?thesis using s by simp
  next
    case True
    have "\<forall>f \<in> set (snd (foldl (\<lambda>st sentence. if contains kw sentence \<and> n < length sentence
                        then accept e item sentence st else st) s (split_sentences (lower (ti_text item))))). Q f"
    proof (rule foldl_invariant [where P = "\<lambda>st. \<forall>f \<in> set (snd st). Q f"])
      show "\<forall>f \<in> set (snd s). Q f" by (rule s)
    next
      fix t :: "'m miner" and sentence
      assume t: "\<forall>f \<in> set (snd t). Q f"
        and sen: "sentence \<in> set (split_sentences (lower (ti_text item)))"
      show "\<forall>f \<in> set (snd (if contains kw sentence \<and> n < length sentence
                then accept e item sentence t else t)). Q f"
      proof (cases "contains kw sentence \<and> n < length sentence")
        case False
        then show ?thesis using t by auto
      next
        case c: True
        have "by_keywords kws n \<lparr>description = capitalize (strip sentence), citation = item\<rparr>"
          using kw sen True c by (auto simp: by_keywords_def Let_def)
        then have "Q \<lparr>description = capitalize (strip sentence), citation = item\<rparr>"
          using assms(2) by simp
        then show ?thesis using c accept_facts [OF t] by simp
      qed
    qed
    then show ?thesis using True by simp
  qed
qed

lemma pattern_scan_facts:
  fixes st :: "'m miner"
  assumes "\<forall>f \<in> set (snd st). Q f"
    and "\<And>f. citation f = item \<Longrightarrow> by_templates phrases mk f \<Longrightarrow> Q f"
  shows "\<forall>f \<in> set (snd (pattern_scan e phrases mk item (lower (ti_text item)) st)). Q f"
  unfolding pattern_scan_def
proof (rule foldl_invariant [where P = "\<lambda>st. \<forall>f \<in> set (snd st). Q f"])
  show "\<forall>f \<in> set (snd st). Q f" by (rule assms(1))
next
  fix s :: "'m miner" and cand
  assume s: "\<forall>f \<in> set (snd s). Q f"
    and c: "cand \<in> set (template_candidates phrases mk (lower (ti_text item)))"
  show "\<forall>f \<in> set (snd (if 10 < length cand then accept e item cand s else s)). Q f"
  proof (cases "10 < length cand")
    case False
    then show ?thesis using s by simp
  next
    case True
    have "by_templates phrases mk \<lparr>description = capitalize (strip cand), citation = item\<rparr>"
      using c True by (auto simp: by_templates_def)
    then have "Q \<lparr>description = capitalize (strip cand), citation = item\<rparr>"
      using assms(2) by simp
    then show ?thesis using True accept_facts [OF s] by simp
  qed
qed

section \<open>Archetype classifier\<close>

lemma map_fst_add_score: "map fst (add_score a k sc) = map fst sc"
  by (induction sc) (auto simp: add_score_def)

lemma map_fst_subreddit_pass: "map fst (subreddit_pass active sc) = map fst sc"
  unfolding subreddit_pass_def
  by (rule foldl_invariant [where P = "\<lambda>s. map fst s = map fst sc"], simp)
     (auto intro!: foldl_invariant [where P = "\<lambda>s. map fst s = map fst sc"] simp: map_fst_add_score)

lemma map_fst_trait_pass: "map fst (trait_pass t sc) = map fst sc"
  unfolding trait_pass_def
  by (rule foldl_invariant [where P = "\<lambda>s. map fst s = map fst sc"], simp)
     (auto intro!: foldl_invariant [where P = "\<lambda>s. map fst s = map fst sc"] simp: map_fst_add_score)

lemma map_fst_personality_pass: "map fst (personality_pass pd sc) = map fst sc"
  by (simp add: personality_pass_def Let_def map_fst_add_score)

lemma map_fst_archetype_scores: "map fst (archetype_scores p) = archetype_names"
  by (simp add: archetype_scores_def map_fst_personality_pass map_fst_trait_pass
        map_fst_subreddit_pass archetype_names_def comp_def)

lemma length_archetype_names: "length archetype_names = 12"
  by (simp add: archetype_names_def archetypes_def)

lemma max_by_score_first:
  "\<exists>i < length (b # xs). max_by_score b xs = (b # xs) ! i
      \<and> (\<forall>j < length (b # xs). snd ((b # xs) ! j) \<le> snd ((b # xs) ! i))
      \<and> (\<forall>j < i. snd ((b # xs) ! j) < snd ((b # xs) ! i))"
proof (induction xs arbitrary: b)
  case Nil
  then show ?case by simp
next
  case (Cons x xs)
  show ?case
  proof (cases "snd b < snd x")
    case True
    from Cons.IH [of x] obtain i where i: "i < length (x # xs)"
      "max_by_score x xs = (x # xs) ! i"
      "\<forall>j < length (x # xs). snd ((x # xs) ! j) \<le> snd ((x # xs) ! i)"
      "\<forall>j < i. snd ((x # xs) ! j) < snd ((x # xs) ! i)" by blast
    from i(3) have x: "snd x \<le> snd ((x # xs) ! i)" by force
    show ?thesis
    proof (intro exI [of _ "Suc i"] conjI allI impI)
      show "Suc i < length (b # x # xs)" using i(1) by simp
      show "max_by_score b (x # xs) = (b # x # xs) ! Suc i" using True i(2) by simp
    next
      fix j assume "j < length (b # x # xs)"
      then show "snd ((b # x # xs) ! j) \<le> snd ((b # x # xs) ! Suc i)"
        using i(3) x True by (cases j) auto
    next
      fix j assume "j < Suc i"
      then show "snd ((b # x # xs) ! j) < snd ((b # x # xs) ! Suc i)"
        using i(4) x True by (cases j) auto
    qed
  next
    case False
    from Cons.IH [of b] obtain i where i: "i < length (b # xs)"
      "max_by_score b xs = (b # xs) ! i"
      "\<forall>j < length (b # xs). snd ((b # xs) ! j) \<le> snd ((b # xs) ! i)"
      "\<forall>j < i. snd ((b # xs) ! j) < snd ((b # xs) ! i)" by blast
    from i(3) have b: "snd b \<le> snd ((b # xs) ! i)" by force
    show ?thesis
    proof (cases i)
      case 0
      show ?thesis
      proof (intro exI [of _ 0] conjI allI impI)
        show "max_by_score b (x # xs) = (b # x # xs) ! 0" using False i(2) 0 by simp
      next
        fix j assume j: "j < length (b # x # xs)"
        show "snd ((b # x # xs) ! j) \<le> snd ((b # x # xs) ! 0)"
        proof (cases j)
          case 0 then show ?thesis by simp
        next
          case (Suc k)
          show ?thesis
          proof (cases k)
            case 0 then show ?thesis using Suc False by simp
          next
            case (Suc m)
            then have "Suc m < length (b # xs)" using j \<open>j = Suc k\<close> by simp
            with i(3) \<open>i = 0\<close> have "snd ((b # xs) ! Suc m) \<le> snd b" by force
            then show ?thesis using Suc \<open>j = Suc k\<close> by simp
          qed
        qed
      qed simp_all
    next
      case (Suc n)
      from i(4) Suc have bl: "snd b < snd (xs ! n)" by force
      show ?thesis
      proof (intro exI [of _ "Suc i"] conjI allI impI)
        show "Suc i < length (b # x # xs)" using i(1) by simp
        show "max_by_score b (x # xs) = (b # x # xs) ! Suc i" using False i(2) Suc by simp
      next
        fix j assume j: "j < length (b # x # xs)"
        show "snd ((b # x # xs) ! j) \<le> snd ((b # x # xs) ! Suc i)"
        proof (cases j)
          case 0 then show ?thesis using bl Suc by simp
        next
          case (Suc k)
          show ?thesis
          proof (cases k)
            case 0 then show ?thesis using \<open>j = Suc k\<close> \<open>i = Suc n\<close> False bl by simp
          next
            case (Suc m)
            then have "Suc m < length (b # xs)" using j \<open>j = Suc k\<close> by simp
            with i(3) have "snd ((b # xs) ! Suc m) \<le> snd ((b # xs) ! i)" by blast
            then show ?thesis using Suc \<open>j = Suc k\<close> \<open>i = Suc n\<close> by simp
          qed
        qed
      next
        fix j assume j: "j < Suc i"
        show "snd ((b # x # xs) ! j) < snd ((b # x # xs) ! Suc i)"
        proof (cases j)
          case 0 then show ?thesis using bl Suc by simp
        next
          case (Suc k)
          show ?thesis
          proof (cases k)
            case 0 then show ?thesis using \<open>j = Suc k\<close> \<open>i = Suc n\<close> False bl by simp
          next
            case (Suc m)
            then have "Suc m < i" using j \<open>j = Suc k\<close> by simp
            with i(4) have "snd ((b # xs) ! Suc m) < snd ((b # xs) ! i)" by blast
            then show ?thesis using Suc \<open>j = Suc k\<close> \<open>i = Suc n\<close> by simp
          qed
        qed
      qed
    qed
  qed
qed

lemma top_archetype_first:
  assumes "sc \<noteq> []"
  shows "\<exists>i < length sc. top_archetype sc = fst (sc ! i)
      \<and> (\<forall>j < length sc. snd (sc ! j) \<le> snd (sc ! i))
      \<and> (\<forall>j < i. snd (sc ! j) < snd (sc ! i))"
proof -
  from assms obtain b xs where sc: "sc = b # xs" by (cases sc) auto
  from max_by_score_first [of b xs] show ?thesis
    unfolding sc top_archetype_def by auto
qed

lemma empty_scores:
  "personality_pass (analyze_personality [])
     (trait_pass [] (subreddit_pass [] (map (\<lambda>a. (fst a, 0)) archetypes)))
   = map (\<lambda>n. (n, 0)) archetype_names"
  by code_simp

lemma empty_corpus_persona:
  assumes "posts_of ud = []" "comments_of ud = []"
  shows "\<exists>q. analyze e (PyDict ud) = Inr q \<and> archetype q = ''The Creator''
             \<and> archetype_scores q = map (\<lambda>n. (n, 0)) archetype_names"
proof -
  have pf: "analyze_posting_frequency e [] [] =
       Inr \<lparr>activity_level = ''Unknown'', most_active_days = [], most_active_hours = []\<rparr>"
    by (simp add: analyze_posting_frequency_def collect_timestamps_def)
  let ?pf = "\<lparr>activity_level = ''Unknown'', most_active_days = [], most_active_hours = []\<rparr>"
  let ?p = "persona_of e ud ?pf"
  have s: "archetype_scores ?p = map (\<lambda>n. (n, 0)) archetype_names"
    using empty_scores
    by (simp add: archetype_scores_def persona_of_def build_persona_def Let_def assms all_text_items_def
          get_active_subreddits_def most_common_def counter_def facts_text_def
          extract_behaviors_and_habits_def extract_frustrations_def extract_goals_and_needs_def)
  have t: "determine_archetype ?p = ''The Creator''"
    unfolding determine_archetype_def s
    by (simp add: archetype_names_def archetypes_def top_archetype_def)
  have "analyze e (PyDict ud) = Inr (?p\<lparr>archetype := determine_archetype ?p\<rparr>)"
    by (simp add: analyze_def assms pf Let_def)
  moreover have "archetype_scores (?p\<lparr>archetype := determine_archetype ?p\<rparr>) = archetype_scores ?p"
    by (simp add: archetype_scores_def facts_text_def)
  ultimately show ?thesis using s t by simp
qed

text \<open>
  Claim C1. The score list of the classifier follows the archetype table, which has 12
  entries. The classifier returns the name at an index whose score is the largest of the
  12 and strictly larger than the score at every earlier index: the archetype with the
  highest score, and the first of them in table order when several share it. The result
  is one of the 12 names. For an input without posts and comments \<open>analyze\<close> returns a
  persona in which every archetype scores 0 and the archetype is the first entry of the
  table.
\<close>

theorem archetype_choice:
  "map fst (archetype_scores p) = archetype_names \<and> length archetype_names = 12
   \<and> determine_archetype p \<in> set archetype_names
   \<and> (\<exists>i < 12. determine_archetype p = archetype_names ! i
         \<and> (\<forall>j < 12. snd (archetype_scores p ! j) \<le> snd (archetype_scores p ! i))
         \<and> (\<forall>j < i. snd (archetype_scores p ! j) < snd (archetype_scores p ! i)))
   \<and> (posts_of ud = [] \<and> comments_of ud = [] \<longrightarrow>
        (\<exists>q. analyze e (PyDict ud) = Inr q \<and> archetype q = archetype_names ! 0
              \<and> (\<forall>j < 12. snd (archetype_scores q ! j) = 0)))"
proof -
  have m: "map fst (archetype_scores p) = archetype_names" by (rule map_fst_archetype_scores)
  have l: "length (archetype_scores p) = 12"
    using arg_cong [OF m, of length] by (simp add: length_archetype_names)
  then have "archetype_scores p \<noteq> []" by auto
  from top_archetype_first [OF this] obtain i where i: "i < 12"
    "determine_archetype p = fst (archetype_scores p ! i)"
    "\<forall>j < 12. snd (archetype_scores p ! j) \<le> snd (archetype_scores p ! i)"
    "\<forall>j < i. snd (archetype_scores p ! j) < snd (archetype_scores p ! i)"
    unfolding determine_archetype_def l by blast
  have n: "fst (archetype_scores p ! i) = archetype_names ! i"
    using i(1) l m by (metis nth_map)
  have mem: "determine_archetype p \<in> set archetype_names"
    using i(1) i(2) n by (simp add: length_archetype_names)
  have e: "posts_of ud = [] \<and> comments_of ud = [] \<longrightarrow>
        (\<exists>q. analyze e (PyDict ud) = Inr q \<and> archetype q = archetype_names ! 0
              \<and> (\<forall>j < 12. snd (archetype_scores q ! j) = 0))"
  proof
    assume a: "posts_of ud = [] \<and> comments_of ud = []"
    then obtain q where q: "analyze e (PyDict ud) = Inr q" "archetype q = ''The Creator''"
      "archetype_scores q = map (\<lambda>n. (n, 0)) archetype_names"
      using empty_corpus_persona [of ud e] by blast
    have "archetype_names ! 0 = ''The Creator''" by (simp add: archetype_names_def archetypes_def)
    moreover have "\<forall>j < 12. snd (archetype_scores q ! j) = 0"
      by (simp add: q(3) length_archetype_names)
    ultimately show "\<exists>q. analyze e (PyDict ud) = Inr q \<and> archetype q = archetype_names ! 0
              \<and> (\<forall>j < 12. snd (archetype_scores q ! j) = 0)"
      using q by auto
  qed
  show ?thesis using m length_archetype_names mem i n e by auto
qed

lemma tie_scores:
  "map snd (archetype_scores tie_persona) = [0, 0, 0, 2, 0, 0, 2, 0, 0, 0, 0, 0]"
  by code_simp

lemma names_list:
  "archetype_names = [''The Creator'', ''The Caregiver'', ''The Explorer'', ''The Sage'', ''The Rebel'',
     ''The Hero'', ''The Jester'', ''The Everyman'', ''The Ruler'', ''The Magician'', ''The Lover'',
     ''The Innocent'']"
  by (simp add: archetype_names_def archetypes_def)

text \<open>
  In the sample persona The Sage (index 3) and The Jester (index 6) both score 2, and The
  Sage is returned; the empty dictionary gives The Creator.
\<close>

theorem archetype_choice_witness:
  "snd (archetype_scores tie_persona ! 3) = 2 \<and> snd (archetype_scores tie_persona ! 6) = 2
   \<and> determine_archetype tie_persona = ''The Sage''
   \<and> posts_of empty_dict = [] \<and> comments_of empty_dict = []
   \<and> (\<exists>q. analyze demo_env (PyDict empty_dict) = Inr q \<and> archetype q = ''The Creator'')"
proof -
  have em: "posts_of empty_dict = []" "comments_of empty_dict = []"
    by (simp_all add: posts_of_def comments_of_def empty_dict_def)
  have len: "length (archetype_scores tie_persona) = 12"
    using arg_cong [OF tie_scores, of length] by simp
  have nth: "snd (archetype_scores tie_persona ! j) = [0, 0, 0, 2, 0, 0, 2, 0, 0, 0, 0, 0] ! j"
    if "j < 12" for j
    using that len tie_scores by (metis nth_map)
  from archetype_choice [of tie_persona empty_dict demo_env] obtain i where i: "i < 12"
    "determine_archetype tie_persona = archetype_names ! i"
    "\<forall>j < 12. snd (archetype_scores tie_persona ! j) \<le> snd (archetype_scores tie_persona ! i)"
    "\<forall>j < i. snd (archetype_scores tie_persona ! j) < snd (archetype_scores tie_persona ! i)"
    and q: "\<exists>q. analyze demo_env (PyDict empty_dict) = Inr q \<and> archetype q = archetype_names ! 0"
    using em by blast
  from i(3) have "snd (archetype_scores tie_persona ! 3) \<le> snd (archetype_scores tie_persona ! i)"
    by simp
  then have ge: "2 \<le> [0, 0, 0, 2, 0, 0, 2, 0, 0, 0, 0, 0 :: int] ! i"
    using nth [of 3] nth [OF i(1)] by simp
  from i(1) have "i \<in> set [0..<12]" by simp
  then have "i = 3 \<or> i = 6" using ge
    by (auto simp: upt_rec)
  moreover have "i \<noteq> 6"
  proof
    assume "i = 6"
    with i(4) have "snd (archetype_scores tie_persona ! 3) < snd (archetype_scores tie_persona ! 6)"
      by simp
    then show False using nth [of 3] nth [of 6] by simp
  qed
  ultimately have "i = 3" by simp
  then have "determine_archetype tie_persona = ''The Sage''" using i(2) by (simp add: names_list)
  then show ?thesis using nth [of 3] nth [of 6] em q by (simp add: names_list)
qed

section \<open>Deduplication\<close>














lemma sharp_facts:
  "map description (extract_behaviors_and_habits demo_env sharp_items) =
     [''Ssx always eats apples'', ''Ssx always eats apples'']"
  by code_simp

lemma sharp_similarity:
  "text_similarity demo_env ''Ssx always eats apples'' ''Ssx always eats apples'' = 1"
  by code_simp

lemma sharp_texts:
  "text_similarity demo_env (CHR 0xDF # ''x always eats apples'') ''ssx always eats apples''
     = float_lit (6 / 10)"
  by code_simp

text \<open>
  The two sample texts have three of their five words in common, so both are accepted.
  Capitalized, both begin with \<open>Ssx\<close>: the collection holds two facts with the same
  description, at similarity 1.
\<close>

theorem dedup_invariant_counterexample:
  "map description (extract_behaviors_and_habits demo_env sharp_items) =
     [''Ssx always eats apples'', ''Ssx always eats apples'']
   \<and> float_lit (7 / 10) <
       text_similarity demo_env
         (description (extract_behaviors_and_habits demo_env sharp_items ! 0))
         (description (extract_behaviors_and_habits demo_env sharp_items ! 1))"
proof -
  let ?fs = "extract_behaviors_and_habits demo_env sharp_items"
  have l: "length ?fs = 2"
    using arg_cong [OF sharp_facts, of length] by simp
  have d: "description (?fs ! 0) = ''Ssx always eats apples''"
    "description (?fs ! 1) = ''Ssx always eats apples''"
    using arg_cong [OF sharp_facts, of "\<lambda>ds. ds ! 0"] arg_cong [OF sharp_facts, of "\<lambda>ds. ds ! 1"] l
    by simp_all
  have "float_lit (7 / 10) < (1 :: rat)" by code_simp
  then show ?thesis unfolding d sharp_similarity using sharp_facts by simp
qed

section \<open>Personality scores\<close>

lemma fst_count_trait:
  "fst (count_trait items kws st) = fst st + keyword_count kws items"
proof -
  have "fst (foldl (\<lambda>st keyword.
              (fst st + int (rx_count (word_pattern keyword) (all_text_of items)),
               cite_keyword items keyword (snd st))) st kws)
        = fst st + sum_list (map (\<lambda>keyword. int (rx_count (word_pattern keyword) (all_text_of items))) kws)"
    by (induction kws arbitrary: st) auto
  then show ?thesis by (simp add: count_trait_def keyword_count_def)
qed

lemma keyword_count_nonneg: "0 \<le> keyword_count kws items"
  unfolding keyword_count_def by (rule sum_list_nonneg) auto

lemma dimension_score:
  "sc_score (analyze_dimension items left_keywords right_keywords) =
     (if 0 < keyword_count left_keywords items + keyword_count right_keywords items
      then percentage (keyword_count right_keywords items)
             (keyword_count left_keywords items + keyword_count right_keywords items)
      else 50)"
  by (simp add: analyze_dimension_def Let_def fst_count_trait)

text \<open>
  Claim C3, as amended. For every corpus and every personality axis the score is 50 when
  no keyword of the axis occurs, and otherwise \<open>int((right_count / total) * 100)\<close>: the
  percentage of the right-hand keywords among all occurrences, computed in double
  arithmetic and truncated, not rounded. The counts are those of the word-bounded,
  case-insensitive occurrences in the lowercased text of the whole corpus. The score lies
  between 0 and 100, and the four axes are scored in this way from their keyword lists.
\<close>

theorem personality_score:
  "sc_score (analyze_dimension items left_keywords right_keywords) =
     (let left_count = keyword_count left_keywords items;
          right_count = keyword_count right_keywords items
      in if left_count + right_count = 0 then 50
         else py_int (fmul (fdiv right_count (left_count + right_count)) 100))
   \<and> 0 \<le> sc_score (analyze_dimension items left_keywords right_keywords)
   \<and> sc_score (analyze_dimension items left_keywords right_keywords) \<le> 100
   \<and> analyze_personality items =
       \<lparr>introvert_extrovert = analyze_dimension items introvert extrovert,
        intuition_sensing = analyze_dimension items intuition sensing,
        feeling_thinking = analyze_dimension items feeling thinking,
        perceiving_judging = analyze_dimension items perceiving judging\<rparr>"
proof -
  let ?l = "keyword_count left_keywords items"
  let ?r = "keyword_count right_keywords items"
  have l: "0 \<le> ?l" and r: "0 \<le> ?r" by (rule keyword_count_nonneg)+
  have z: "(?l + ?r = 0) = (\<not> 0 < ?l + ?r)" using l r by linarith
  have b: "0 < ?l + ?r \<Longrightarrow> 0 \<le> percentage ?r (?l + ?r) \<and> percentage ?r (?l + ?r) \<le> 100"
    using l r by (intro percentage_bounds) simp_all
  show ?thesis
    using dimension_score [of items left_keywords right_keywords] z b
    by (auto simp: Let_def percentage_def analyze_personality_def)
qed

text \<open>The truncation is that of the double: 29 occurrences of 100 give 28, not 29.\<close>

lemma percentage_29_of_100: "percentage 29 100 = 28 \<and> \<lfloor>100 * 29 / (100 :: rat)\<rfloor> = 29"
  by code_simp

lemma quiet_counts:
  "keyword_count introvert [quiet_item] = 1 \<and> keyword_count extrovert [quiet_item] = 2"
  by code_simp

lemma quiet_float: "py_int (fmul (fdiv 2 3) 100) = 66"
  by code_simp

lemma quiet_rounded: "rounded_score 1 2 = 67"
  by code_simp

text \<open>
  One introvert keyword and two extrovert keywords: the score is 66, and the rounded
  percentage is 67.
\<close>

theorem personality_score_counterexample:
  "keyword_count introvert [quiet_item] = 1 \<and> keyword_count extrovert [quiet_item] = 2
   \<and> sc_score (introvert_extrovert (analyze_personality [quiet_item])) = 66
   \<and> rounded_score 1 2 = 67"
proof -
  have "sc_score (analyze_dimension [quiet_item] introvert extrovert) = 66"
    using dimension_score [of "[quiet_item]" introvert extrovert] quiet_counts quiet_float
    by (simp add: percentage_def)
  then show ?thesis
    using quiet_counts quiet_rounded by (simp add: analyze_personality_def)
qed

section \<open>Failures of the entry point\<close>






text \<open>
  Two posts whose timestamps both parse, one naive and one with an offset: sorting them
  raises \<open>TypeError\<close>, which nothing catches.
\<close>

lemma analyze_mixed_timezones: "analyze demo_env (PyDict mixed_dict) = Inl TypeError"
  by code_simp

section \<open>Motivation scores\<close>

lemma credit_nonneg: "0 \<le> sc_score c \<Longrightarrow> 0 \<le> sc_score (credit item c)"
  by (simp add: credit_def)

lemma score_keyword_nonneg:
  "0 \<le> sc_score c \<Longrightarrow> 0 \<le> sc_score (score_keyword e item text c keyword)"
  unfolding score_keyword_def
  by (auto intro!: foldl_invariant [where P = "\<lambda>c. 0 \<le> sc_score c"] simp: credit_nonneg)

lemma motivation_step_nonneg:
  fixes cats :: "'m categories"
  assumes "\<And>c. 0 \<le> sc_score (cats c)"
  shows "0 \<le> sc_score (motivation_step e cats item c)"
proof -
  have "\<forall>c. 0 \<le> sc_score (motivation_step e cats item c)"
    unfolding motivation_step_def Let_def
  proof (rule foldl_invariant [where P = "\<lambda>cats. \<forall>c. 0 \<le> sc_score (cats c)"])
    show "\<forall>c. 0 \<le> sc_score (cats c)" using assms by simp
  next
    fix s :: "'m categories" and x :: "string \<times> string list"
    assume s: "\<forall>c. 0 \<le> sc_score (s c)"
    have "0 \<le> sc_score (foldl (score_keyword e item (lower (ti_text item))) (s (fst x)) (snd x))"
      by (rule foldl_invariant [where P = "\<lambda>c. 0 \<le> sc_score c"])
         (use s in \<open>auto simp: score_keyword_nonneg\<close>)
    then show "\<forall>c. 0 \<le> sc_score ((case x of (category, keywords) \<Rightarrow>
                  s(category := foldl (score_keyword e item (lower (ti_text item))) (s category) keywords)) c)"
      using s by (cases x) auto
  qed
  then show ?thesis by simp
qed

lemma raw_count_nonneg: "0 \<le> raw_count e items c"
proof -
  have "\<forall>c. 0 \<le> sc_score (raw_motivations e items c)"
    unfolding raw_motivations_def
    by (rule foldl_invariant [where P = "\<lambda>cats. \<forall>c. 0 \<le> sc_score (cats c)"])
       (auto simp: motivation_step_nonneg)
  then show ?thesis by (simp add: raw_count_def)
qed

lemma max_score_divisor: "max_score (raw_motivations e items) = divisor e items"
proof -
  have "list_ex (\<lambda>c. 0 < raw_count e items c) motivation_names
          \<longleftrightarrow> \<not> (\<forall>c \<in> set motivation_names. raw_count e items c = 0)"
    using raw_count_nonneg [of e items] by (auto simp: list_ex_iff order.strict_iff_order)
  then show ?thesis
    by (simp add: max_score_def divisor_def raw_count_def [abs_def])
qed

lemma normalized_bounds: "0 \<le> raw \<Longrightarrow> 0 \<le> normalized_score mx raw \<and> normalized_score mx raw \<le> 10"
  by (auto simp: normalized_score_def py_int_def fmul_def fdiv_def intro!: rnd_nonneg)

lemma normalized_top: "0 < mx \<Longrightarrow> normalized_score mx mx = 10"
  by (simp add: normalized_score_def fdiv_def fmul_def rnd_1 rnd_10 py_int_def)

lemma normalized_zero: "normalized_score 1 0 = 0"
  by (simp add: normalized_score_def fdiv_def fmul_def rnd_0 py_int_def)

lemma map_of_tabulate: "c \<in> set xs \<Longrightarrow> map_of (map (\<lambda>k. (k, f k)) xs) c = Some (f c)"
  by (induction xs) auto

lemma map_of_normalize:
  "c \<in> set motivation_names \<Longrightarrow>
   map_of (normalize_motivations cats) c =
     Some \<lparr>sc_score = normalized_score (max_score cats) (sc_score (cats c)),
           sc_citations = take 3 (sc_citations (cats c))\<rparr>"
  unfolding normalize_motivations_def by (rule map_of_tabulate)

text \<open>
  Claim C5. The motivation scorer returns the six categories in their fixed order. Each
  final score is an integer between 0 and 10, namely \<open>min(10, int((raw / divisor) * 10))\<close>
  in double arithmetic, where the divisor is the largest raw counter of the six categories,
  or 1 when all counters are 0; then all six scores are 0. A category whose counter is
  positive and equal to the largest counter scores exactly 10.
\<close>

theorem motivation_scores:
  "map fst (extract_motivations e items) = motivation_names \<and> length motivation_names = 6
   \<and> (\<forall>c \<in> set motivation_names.
         \<exists>entry. map_of (extract_motivations e items) c = Some entry
           \<and> 0 \<le> sc_score entry \<and> sc_score entry \<le> 10
           \<and> sc_score entry = min 10 (py_int (fmul (fdiv (raw_count e items c) (divisor e items)) 10))
           \<and> ((\<forall>d \<in> set motivation_names. raw_count e items d = 0) \<longrightarrow> sc_score entry = 0)
           \<and> (0 < raw_count e items c \<and> raw_count e items c = divisor e items \<longrightarrow> sc_score entry = 10))"
proof (intro conjI ballI)
  show "map fst (extract_motivations e items) = motivation_names"
    by (simp add: extract_motivations_def normalize_motivations_def comp_def)
  show "length motivation_names = 6"
    by (simp add: motivation_names_def category_keywords_def)
next
  fix c assume c: "c \<in> set motivation_names"
  let ?s = "normalized_score (divisor e items) (raw_count e items c)"
  let ?entry = "\<lparr>sc_score = ?s, sc_citations = take 3 (sc_citations (raw_motivations e items c))\<rparr>"
  have m: "map_of (extract_motivations e items) c = Some ?entry"
    using map_of_normalize [OF c, of "raw_motivations e items"]
    by (simp add: extract_motivations_def max_score_divisor raw_count_def)
  have dpos: "0 < divisor e items"
  proof (cases "\<forall>c \<in> set motivation_names. raw_count e items c = 0")
    case True then show ?thesis by (simp add: divisor_def)
  next
    case False
    then obtain d where d: "d \<in> set motivation_names" "raw_count e items d \<noteq> 0" by auto
    then have "0 < raw_count e items d" using raw_count_nonneg [of e items d] by simp
    also have "raw_count e items d \<le> Max (raw_count e items ` set motivation_names)"
      using d by (intro Max_ge) auto
    finally show ?thesis using False by (simp add: divisor_def)
  qed
  have b: "0 \<le> ?s \<and> ?s \<le> 10" by (rule normalized_bounds [OF raw_count_nonneg])
  have f: "?s = min 10 (py_int (fmul (fdiv (raw_count e items c) (divisor e items)) 10))"
    using dpos by (simp add: normalized_score_def)
  have z: "(\<forall>d \<in> set motivation_names. raw_count e items d = 0) \<longrightarrow> ?s = 0"
    using c by (auto simp: divisor_def normalized_zero)
  have t: "0 < raw_count e items c \<and> raw_count e items c = divisor e items \<longrightarrow> ?s = 10"
    using normalized_top [of "divisor e items"] by auto
  show "\<exists>entry. map_of (extract_motivations e items) c = Some entry
           \<and> 0 \<le> sc_score entry \<and> sc_score entry \<le> 10
           \<and> sc_score entry = min 10 (py_int (fmul (fdiv (raw_count e items c) (divisor e items)) 10))
           \<and> ((\<forall>d \<in> set motivation_names. raw_count e items d = 0) \<longrightarrow> sc_score entry = 0)
           \<and> (0 < raw_count e items c \<and> raw_count e items c = divisor e items \<longrightarrow> sc_score entry = 10)"
    using m b f z t by (intro exI [of _ ?entry]) simp
qed

lemma mot_raw: "map (raw_count demo_env [mot_item]) motivation_names = [2, 0, 1, 1, 0, 0]"
  by code_simp

text \<open>
  In the sample text the category \<open>convenience\<close> has the largest counter, 2, and scores 10.
\<close>

theorem motivation_scores_witness:
  "''convenience'' \<in> set motivation_names
   \<and> 0 < raw_count demo_env [mot_item] ''convenience''
   \<and> raw_count demo_env [mot_item] ''convenience'' = divisor demo_env [mot_item]
   \<and> (\<exists>entry. map_of (extract_motivations demo_env [mot_item]) ''convenience'' = Some entry
               \<and> sc_score entry = 10)"
proof -
  have n: "motivation_names = [''convenience'', ''wellness'', ''speed'', ''preferences'', ''comfort'', ''dietary_needs'']"
    by (simp add: motivation_names_def category_keywords_def)
  have r: "raw_count demo_env [mot_item] ''convenience'' = 2"
    using mot_raw by (simp add: n)
  have d: "divisor demo_env [mot_item] = 2"
    using mot_raw by (simp add: divisor_def n)
  have c: "''convenience'' \<in> set motivation_names" by (simp add: n)
  from motivation_scores [of demo_env "[mot_item]"] c r d show ?thesis
    by fastforce
qed

section \<open>Age extraction\<close>

lemma age_step_set: "\<not> unset_age f \<Longrightarrow> age_step item f = f"
  by (simp add: age_step_def split: option.splits)

lemma age_step_cases:
  "age_step item f =
     (if unset_age f
      then (case age_candidate item of
              None \<Rightarrow> f
            | Some a \<Rightarrow> \<lparr>df_value = Some a, df_confidence = float_lit (9 / 10), df_citation = Some item\<rparr>)
      else f)"
  by (auto simp: age_step_def age_candidate_def in_range_def Let_def split: option.splits)

lemma age_candidate_range: "age_candidate item = Some a \<Longrightarrow> in_range a"
  by (auto simp: age_candidate_def split: option.splits if_splits)

lemma d_age_foldl:
  "d_age (foldl demographics_step d items) = foldl (\<lambda>f item. age_step item f) (d_age d) items"
  by (induction items arbitrary: d) (auto simp: demographics_step_def)

lemma foldl_age_set:
  "\<not> unset_age f \<Longrightarrow> foldl (\<lambda>f item. age_step item f) f items = f"
  by (induction items) (auto simp: age_step_set)

lemma foldl_age_unset:
  "unset_age f \<Longrightarrow>
   foldl (\<lambda>f item. age_step item f) f items =
     (case find (\<lambda>i. age_candidate i \<noteq> None) items of
        None \<Rightarrow> f
      | Some i \<Rightarrow> \<lparr>df_value = age_candidate i, df_confidence = float_lit (9 / 10),
                   df_citation = Some i\<rparr>)"
proof (induction items)
  case Nil
  then show ?case by simp
next
  case (Cons x xs)
  show ?case
  proof (cases "age_candidate x")
    case None
    then have "age_step x f = f" by (simp add: age_step_cases)
    then show ?thesis using Cons None by simp
  next
    case (Some a)
    let ?g = "\<lparr>df_value = Some a, df_confidence = float_lit (9 / 10), df_citation = Some x\<rparr>"
    have "age_step x f = ?g" using Cons.prems Some by (simp add: age_step_cases)
    moreover have "\<not> unset_age ?g"
      using age_candidate_range [OF Some] by (simp add: unset_age_def in_range_def)
    ultimately show ?thesis using Some by (simp add: foldl_age_set)
  qed
qed

text \<open>
  Claim C6, as amended. When the age field is unset and the age pattern matches in an item,
  the field becomes the matched age with confidence 0.9 and the item as citation exactly
  when the age lies in 13 to 90, and stays as it was otherwise; a field that is set is
  never changed, and a field set to an age in range is set. Over the corpus the age field
  is that of the first item whose leftmost match of the age pattern has an age in range
  (only the leftmost match of an item is examined), and it is empty when there is no such
  item.
\<close>

theorem age_extraction:
  fixes f :: "(nat, 'm) dfield" and t :: "'m text_item_scheme option"
    and items :: "'m text_item_scheme list"
  shows
  "(unset_age f \<and> rx_search age_pattern None (ti_text item) = Some m \<and> m_group m = Some g \<longrightarrow>
      age_step item f =
        (if 13 \<le> int_of_digits g \<and> int_of_digits g \<le> 90
         then \<lparr>df_value = Some (int_of_digits g), df_confidence = float_lit (9 / 10),
               df_citation = Some item\<rparr>
         else f))
   \<and> (\<not> unset_age f \<longrightarrow> age_step item f = f)
   \<and> (13 \<le> a \<and> a \<le> 90 \<longrightarrow> \<not> unset_age \<lparr>df_value = Some a, df_confidence = c, df_citation = t\<rparr>)
   \<and> d_age (extract_demographics items) =
       (case find (\<lambda>i. age_candidate i \<noteq> None) items of
          None \<Rightarrow> no_field
        | Some i \<Rightarrow> \<lparr>df_value = age_candidate i, df_confidence = float_lit (9 / 10),
                     df_citation = Some i\<rparr>)"
proof (intro conjI impI)
  assume "unset_age f \<and> rx_search age_pattern None (ti_text item) = Some m \<and> m_group m = Some g"
  then show "age_step item f =
        (if 13 \<le> int_of_digits g \<and> int_of_digits g \<le> 90
         then \<lparr>df_value = Some (int_of_digits g), df_confidence = float_lit (9 / 10),
               df_citation = Some item\<rparr>
         else f)"
    by (simp add: age_step_def Let_def)
next
  assume "\<not> unset_age f"
  then show "age_step item f = f" by (rule age_step_set)
next
  assume "13 \<le> a \<and> a \<le> 90"
  then show "\<not> unset_age \<lparr>df_value = Some a, df_confidence = c, df_citation = t\<rparr>"
    by (simp add: unset_age_def)
next
  have u: "unset_age (no_field :: (nat, 'm) dfield)" by (simp add: unset_age_def no_field_def)
  show "d_age (extract_demographics items) =
       (case find (\<lambda>i. age_candidate i \<noteq> None) items of
          None \<Rightarrow> no_field
        | Some i \<Rightarrow> \<lparr>df_value = age_candidate i, df_confidence = float_lit (9 / 10),
                     df_citation = Some i\<rparr>)"
    by (simp add: extract_demographics_def d_age_foldl foldl_age_unset [OF u])
qed



lemma boundary_candidates: "map age_candidate boundary_items = [None, None, Some 13, Some 90]"
  by code_simp

lemma boundary_find:
  "find (\<lambda>i. age_candidate i \<noteq> None) boundary_items = Some (item_of ''Well, I am 13 years old!'')"
  by code_simp

lemma boundary_13: "age_candidate (item_of ''Well, I am 13 years old!'') = Some 13"
  by code_simp

text \<open>
  Ages 12 and 91 are rejected, 13 and 90 are accepted; the field is set by the item with
  age 13 and the later item with age 90 does not change it.
\<close>

theorem age_extraction_witness:
  "map age_candidate boundary_items = [None, None, Some 13, Some 90]
   \<and> d_age (extract_demographics boundary_items) =
       \<lparr>df_value = Some 13, df_confidence = float_lit (9 / 10),
        df_citation = Some (item_of ''Well, I am 13 years old!'')\<rparr>
   \<and> age_step (item_of ''i'm 90 yo'')
        \<lparr>df_value = Some 13, df_confidence = float_lit (9 / 10),
         df_citation = Some (item_of ''Well, I am 13 years old!'')\<rparr>
       = \<lparr>df_value = Some 13, df_confidence = float_lit (9 / 10),
          df_citation = Some (item_of ''Well, I am 13 years old!'')\<rparr>"
proof (intro conjI)
  let ?f = "\<lparr>df_value = Some (13::nat), df_confidence = float_lit (9 / 10),
         df_citation = Some (item_of ''Well, I am 13 years old!'')\<rparr>"
  show "map age_candidate boundary_items = [None, None, Some 13, Some 90]"
    by (rule boundary_candidates)
  have u: "\<not> unset_age ?f" by (simp add: unset_age_def)
  show "age_step (item_of ''i'm 90 yo'') ?f = ?f"
    using age_extraction [where f = ?f and item = "item_of ''i'm 90 yo''"] u by blast
  have "d_age (extract_demographics boundary_items) =
       (case find (\<lambda>i. age_candidate i \<noteq> None) boundary_items of
          None \<Rightarrow> no_field
        | Some i \<Rightarrow> \<lparr>df_value = age_candidate i, df_confidence = float_lit (9 / 10),
                     df_citation = Some i\<rparr>)"
    using age_extraction [where items = boundary_items] by blast
  then show "d_age (extract_demographics boundary_items) = ?f"
    by (simp only: boundary_find boundary_13 option.case)
qed

lemma two_ages_first:
  "first_qualifying_match two_ages = Some (25, item_of ''I'm 99 years old. I'm 25 years old.'')"
  by code_simp

lemma two_ages_fold:
  "foldl (\<lambda>f item. age_step item f) no_field two_ages =
     \<lparr>df_value = Some 30, df_confidence = float_lit (9 / 10),
      df_citation = Some (item_of ''I'm 30 years old'')\<rparr>"
  by code_simp

text \<open>
  The first item holds the matches 99 and 25, the second the match 30. The first match of
  the corpus with an age in range is 25, in the first item; the extractor returns 30 and
  cites the second item.
\<close>

theorem age_extraction_counterexample:
  "first_qualifying_match two_ages = Some (25, item_of ''I'm 99 years old. I'm 25 years old.'')
   \<and> df_value (d_age (extract_demographics two_ages)) = Some 30
   \<and> df_citation (d_age (extract_demographics two_ages)) = Some (item_of ''I'm 30 years old'')"
  by (simp add: two_ages_first extract_demographics_def d_age_foldl two_ages_fold)

section \<open>Frustration mining\<close>

lemma frustration_step_facts:
  assumes "\<forall>f \<in> set (snd st). frustration_source e items f" and "item \<in> set items"
  shows "\<forall>f \<in> set (snd (frustration_step e st item)). frustration_source e items f"
proof -
  let ?text = "lower (ti_text item)"
  have a: "\<forall>f \<in> set (snd (if negative e ?text
              then keyword_scan e frustration_keywords 15 item ?text st else st)).
            frustration_source e items f"
  proof (cases "negative e ?text")
    case False
    then show ?thesis using assms(1) by simp
  next
    case True
    have "\<forall>f \<in> set (snd (keyword_scan e frustration_keywords 15 item ?text st)).
            frustration_source e items f"
      by (rule keyword_scan_facts [OF assms(1)])
         (use True assms(2) in \<open>auto simp: frustration_source_def\<close>)
    then show ?thesis using True by simp
  qed
  show ?thesis
    unfolding frustration_step_def Let_def
    by (rule pattern_scan_facts [OF a]) (use assms(2) in \<open>auto simp: frustration_source_def\<close>)
qed

lemma frustrations_facts:
  "\<forall>f \<in> set (snd (foldl (frustration_step e) ([], []) items)). frustration_source e items f"
  by (rule foldl_invariant [where P = "\<lambda>st. \<forall>f \<in> set (snd st). frustration_source e items f"])
     (auto intro: frustration_step_facts [rule_format])

text \<open>
  Claim C7. On an item whose lowercased text has a negative score of at most 0.2 the
  frustration miner runs the templates only; on an item whose score is above 0.2 it runs
  the keyword scan and then the templates. Hence every frustration cites an item of the
  corpus, and it either is a keyword sentence of an item whose negative score is above 0.2
  or is a template candidate of its item.
\<close>

theorem frustration_gate:
  fixes item :: "'m text_item_scheme" and items :: "'m text_item_scheme list"
  shows
  "(\<not> negative e (lower (ti_text item)) \<longrightarrow>
      frustration_step e st item =
        pattern_scan e frustration_patterns (\<lambda>m. m) item (lower (ti_text item)) st)
   \<and> (negative e (lower (ti_text item)) \<longrightarrow>
      frustration_step e st item =
        pattern_scan e frustration_patterns (\<lambda>m. m) item (lower (ti_text item))
          (keyword_scan e frustration_keywords 15 item (lower (ti_text item)) st))
   \<and> (\<forall>f \<in> set (extract_frustrations e items).
        citation f \<in> set items
        \<and> ((float_lit (2 / 10) < polarity_neg e (lower (ti_text (citation f)))
             \<and> by_keywords frustration_keywords 15 f)
            \<or> by_templates frustration_patterns (\<lambda>m. m) f))"
proof (intro conjI impI ballI)
  fix f assume "f \<in> set (extract_frustrations e items)"
  then have "f \<in> set (snd (foldl (frustration_step e) ([], []) items))"
    by (auto simp: extract_frustrations_def dest: in_set_takeD)
  then have s: "frustration_source e items f" using frustrations_facts by blast
  then show "citation f \<in> set items" by (simp add: frustration_source_def)
  from s show "(float_lit (2 / 10) < polarity_neg e (lower (ti_text (citation f)))
             \<and> by_keywords frustration_keywords 15 f)
            \<or> by_templates frustration_patterns (\<lambda>m. m) f"
    by (simp add: frustration_source_def negative_def)
qed (simp_all add: frustration_step_def Let_def)

lemma calm_scan:
  "pattern_scan demo_env frustration_patterns (\<lambda>m. m) calm_item (lower (ti_text calm_item)) ([], [])
     = ([], [])"
  by code_simp

lemma calm_keywords:
  "snd (keyword_scan demo_env frustration_keywords 15 calm_item (lower (ti_text calm_item)) ([], []))
     = [\<lparr>description = ''It is annoying to wait here every day'', citation = calm_item\<rparr>]"
  by code_simp

lemma angry_facts:
  "extract_frustrations demo_env [calm_item, angry_item] =
     [\<lparr>description = ''This is so annoying and i hate it when that happens'', citation = angry_item\<rparr>,
      \<lparr>description = ''I hate it when that happens'', citation = angry_item\<rparr>]"
  by code_simp

lemma calm_angry:
  "\<not> negative demo_env (lower (ti_text calm_item)) \<and> negative demo_env (lower (ti_text angry_item))"
  by code_simp

text \<open>
  The first sample item is not negative: the keyword scan alone would accept its sentence,
  and the miner accepts nothing from it. The second is negative and yields a keyword
  sentence and a template candidate.
\<close>

theorem frustration_gate_witness:
  "\<not> negative demo_env (lower (ti_text calm_item))
   \<and> snd (keyword_scan demo_env frustration_keywords 15 calm_item (lower (ti_text calm_item)) ([], []))
       = [\<lparr>description = ''It is annoying to wait here every day'', citation = calm_item\<rparr>]
   \<and> frustration_step demo_env ([], []) calm_item = ([], [])
   \<and> negative demo_env (lower (ti_text angry_item))
   \<and> extract_frustrations demo_env [calm_item, angry_item] =
       [\<lparr>description = ''This is so annoying and i hate it when that happens'', citation = angry_item\<rparr>,
        \<lparr>description = ''I hate it when that happens'', citation = angry_item\<rparr>]
   \<and> float_lit (2 / 10) < polarity_neg demo_env (lower (ti_text angry_item))"
proof -
  have "frustration_step demo_env ([], []) calm_item = ([], [])"
    using frustration_gate [of demo_env calm_item "([], [])"] calm_angry calm_scan by simp
  moreover have "float_lit (2 / 10) < polarity_neg demo_env (lower (ti_text angry_item))"
    using calm_angry by (simp add: negative_def)
  ultimately show ?thesis using calm_angry calm_keywords angry_facts by simp
qed

section \<open>Activity tier\<close>

lemma length_parse_timestamp:
  "length (parse_timestamp e v) = (if parseable e v then 1 else 0)"
  by (auto simp: parse_timestamp_def parseable_def truthy_def split: option.splits)

lemma length_concat_parse:
  "length (concat (map (\<lambda>x. parse_timestamp e (f x)) xs)) = length (filter (\<lambda>x. parseable e (f x)) xs)"
  by (induction xs) (auto simp: length_parse_timestamp)

lemma length_collect_timestamps:
  "length (collect_timestamps e posts comments) = timestamped e posts comments"
  by (simp add: collect_timestamps_def timestamped_def length_concat_parse)

lemma posting_frequency_level:
  assumes "analyze_posting_frequency e posts comments = Inr pf"
  shows "activity_level pf =
           (if timestamped e posts comments = 0 then ''Unknown''
            else level_of (timestamped e posts comments))"
  using assms
  by (auto simp: analyze_posting_frequency_def Let_def sort_timestamps_def
        length_collect_timestamps [symmetric] split: if_splits)

lemma ud1_frequency:
  "analyze_posting_frequency demo_env (posts_of ud1) (comments_of ud1) =
     Inr \<lparr>activity_level = ''Low'', most_active_days = [(''Monday'', 1)],
          most_active_hours = [(12, 1)]\<rparr>"
  by code_simp

text \<open>
  Claim C8, as amended. Whenever \<open>analyze\<close> returns a persona, its activity tier is
  \<open>Unknown\<close> when no item has a parseable timestamp, \<open>Low\<close> for 1 to 9 such items,
  \<open>Moderate\<close> for 10 to 49 and \<open>High\<close> from 50 on. Items whose timestamp does not parse are
  left out of that count only: the totals count every post and comment, every post and
  comment becomes a text item, and the demographics, the three miners, the motivation
  scorer, the personality scorer and the subreddit histogram all run on the full lists.
\<close>

theorem activity_tier:
  assumes "analyze e (PyDict ud) = Inr p"
  shows "activity_level (posting_freq (activity_of p)) =
           (let n = timestamped e (posts_of ud) (comments_of ud)
            in if n = 0 then ''Unknown'' else if n < 10 then ''Low''
               else if n < 50 then ''Moderate'' else ''High'')
         \<and> total_posts (activity_of p) = length (posts_of ud)
         \<and> total_comments (activity_of p) = length (comments_of ud)
         \<and> length (all_text_items (posts_of ud) (comments_of ud))
             = length (posts_of ud) + length (comments_of ud)
         \<and> behavior_and_habits p
             = extract_behaviors_and_habits e (all_text_items (posts_of ud) (comments_of ud))
         \<and> frustrations p = extract_frustrations e (all_text_items (posts_of ud) (comments_of ud))
         \<and> goals_and_needs p = extract_goals_and_needs e (all_text_items (posts_of ud) (comments_of ud))
         \<and> motivations p = extract_motivations e (all_text_items (posts_of ud) (comments_of ud))
         \<and> personality p = analyze_personality (all_text_items (posts_of ud) (comments_of ud))
         \<and> detected_demographics (basic p)
             = extract_demographics (all_text_items (posts_of ud) (comments_of ud))
         \<and> active_subreddits (activity_of p) = get_active_subreddits (posts_of ud) (comments_of ud)"
proof -
  from assms obtain pf where
    pf: "analyze_posting_frequency e (posts_of ud) (comments_of ud) = Inr pf"
    and p: "p = (persona_of e ud pf)\<lparr>archetype := determine_archetype (persona_of e ud pf)\<rparr>"
    by (auto simp: analyze_def Let_def split: sum.splits)
  have "activity_level pf =
           (let n = timestamped e (posts_of ud) (comments_of ud)
            in if n = 0 then ''Unknown'' else if n < 10 then ''Low''
               else if n < 50 then ''Moderate'' else ''High'')"
    using posting_frequency_level [OF pf] by (simp add: level_of_def Let_def)
  then show ?thesis
    by (simp add: p persona_of_def build_persona_def Let_def all_text_items_def)
qed

text \<open>
  The sample corpus has one post with a timestamp that parses and one comment with a
  timestamp that does not: the tier is \<open>Low\<close>, and both items are kept.
\<close>

theorem activity_tier_witness:
  "\<exists>p. analyze demo_env (PyDict ud1) = Inr p
       \<and> timestamped demo_env (posts_of ud1) (comments_of ud1) = 1
       \<and> activity_level (posting_freq (activity_of p)) = ''Low''
       \<and> total_posts (activity_of p) = 1 \<and> total_comments (activity_of p) = 1
       \<and> length (all_text_items (posts_of ud1) (comments_of ud1)) = 2"
proof -
  obtain p where p: "analyze demo_env (PyDict ud1) = Inr p"
    by (simp add: analyze_def ud1_frequency Let_def)
  have n: "timestamped demo_env (posts_of ud1) (comments_of ud1) = 1"
    by code_simp
  have l: "length (posts_of ud1) = 1" "length (comments_of ud1) = 1"
    by (simp_all add: posts_of_def comments_of_def ud1_def)
  show ?thesis
    using activity_tier [OF p] p n l by (simp add: Let_def)
qed

text \<open>
  With no timestamped item at all (fewer than 10), the tier is \<open>Unknown\<close>, not \<open>Low\<close>.
\<close>

theorem activity_tier_counterexample:
  "timestamped demo_env [] [] < 10
   \<and> analyze_posting_frequency demo_env [] [] =
       Inr \<lparr>activity_level = ''Unknown'', most_active_days = [], most_active_hours = []\<rparr>"
  by (simp add: timestamped_def analyze_posting_frequency_def collect_timestamps_def)

section \<open>Frame of \<open>analyze\<close>\<close>

lemma field_from_no_field: "field_from S no_field"
  by (simp add: field_from_def field_citation_def no_field_def)

lemma field_from_new:
  "item \<in> S \<Longrightarrow> field_from S \<lparr>df_value = v, df_confidence = c, df_citation = Some item\<rparr>"
  by (simp add: field_from_def field_citation_def)

lemma age_step_from: "item \<in> S \<Longrightarrow> field_from S f \<Longrightarrow> field_from S (age_step item f)"
  by (auto simp: age_step_def Let_def field_from_new split: option.splits)

lemma location_step_from: "item \<in> S \<Longrightarrow> field_from S f \<Longrightarrow> field_from S (location_step item f)"
  by (auto simp: location_step_def field_from_new split: option.splits)

lemma occupation_step_from: "item \<in> S \<Longrightarrow> field_from S f \<Longrightarrow> field_from S (occupation_step item f)"
  by (auto simp: occupation_step_def field_from_new split: option.splits)

lemma status_step_from:
  assumes "item \<in> S" "field_from S f"
  shows "field_from S (status_step item f)"
  unfolding status_step_def
proof (rule foldl_invariant [where P = "field_from S"])
  show "field_from S f" by (rule assms(2))
next
  fix g :: "(string, 'a) dfield" and x :: "string \<times> string list"
  assume g: "field_from S g"
  obtain status indicators where x: "x = (status, indicators)" by (cases x)
  have "field_from S (foldl (\<lambda>f indicator.
             if rx_search (status_pattern indicator) None (ti_text item) \<noteq> None
                \<and> (unset_str f \<or> df_confidence f < float_lit (75 / 100))
             then \<lparr>df_value = Some status, df_confidence = float_lit (75 / 100),
                   df_citation = Some item\<rparr>
             else f) g indicators)"
    by (rule foldl_invariant [where P = "field_from S"])
       (use g assms(1) in \<open>simp_all add: field_from_new\<close>)
  then show "field_from S (case x of (status, indicators) \<Rightarrow>
          foldl (\<lambda>f indicator.
             if rx_search (status_pattern indicator) None (ti_text item) \<noteq> None
                \<and> (unset_str f \<or> df_confidence f < float_lit (75 / 100))
             then \<lparr>df_value = Some status, df_confidence = float_lit (75 / 100),
                   df_citation = Some item\<rparr>
             else f) g indicators)"
    by (simp add: x)
qed

lemma demographics_from:
  "field_from (set items) (d_age (extract_demographics items))
   \<and> field_from (set items) (d_location (extract_demographics items))
   \<and> field_from (set items) (d_occupation (extract_demographics items))
   \<and> field_from (set items) (d_status (extract_demographics items))"
  unfolding extract_demographics_def
  by (rule foldl_invariant [where P = "\<lambda>d. field_from (set items) (d_age d)
         \<and> field_from (set items) (d_location d) \<and> field_from (set items) (d_occupation d)
         \<and> field_from (set items) (d_status d)"])
     (auto simp: field_from_no_field demographics_step_def
        intro: age_step_from location_step_from occupation_step_from status_step_from)

lemma keyword_scan_from:
  assumes "facts_from S st" "item \<in> S"
  shows "facts_from S (keyword_scan e kws n item (lower (ti_text item)) st)"
proof -
  have "\<forall>f \<in> set (snd (keyword_scan e kws n item (lower (ti_text item)) st)). citation f \<in> S"
    by (rule keyword_scan_facts) (use assms in \<open>auto simp: facts_from_def\<close>)
  then show ?thesis by (auto simp: facts_from_def)
qed

lemma pattern_scan_from:
  assumes "facts_from S st" "item \<in> S"
  shows "facts_from S (pattern_scan e phrases mk item (lower (ti_text item)) st)"
proof -
  have "\<forall>f \<in> set (snd (pattern_scan e phrases mk item (lower (ti_text item)) st)). citation f \<in> S"
    by (rule pattern_scan_facts) (use assms in \<open>auto simp: facts_from_def\<close>)
  then show ?thesis by (auto simp: facts_from_def)
qed

lemma miners_from:
  "citation ` set (extract_behaviors_and_habits e items) \<subseteq> set items
   \<and> citation ` set (extract_frustrations e items) \<subseteq> set items
   \<and> citation ` set (extract_goals_and_needs e items) \<subseteq> set items"
proof -
  have i: "facts_from (set items) ([], [])" by (simp add: facts_from_def)
  have b: "facts_from (set items) (foldl (behavior_step e) ([], []) items)"
    by (rule foldl_invariant [where P = "facts_from (set items)"], rule i)
       (simp add: behavior_step_def Let_def pattern_scan_from keyword_scan_from)
  have f: "facts_from (set items) (foldl (frustration_step e) ([], []) items)"
    by (rule foldl_invariant [where P = "facts_from (set items)"], rule i)
       (simp add: frustration_step_def Let_def pattern_scan_from keyword_scan_from)
  have g: "facts_from (set items) (foldl (goal_step e) ([], []) items)"
    by (rule foldl_invariant [where P = "facts_from (set items)"], rule i)
       (simp add: goal_step_def Let_def pattern_scan_from keyword_scan_from)
  have t: "citation ` set (take n (snd st)) \<subseteq> S" if "facts_from S st" for n S
    and st :: "'a miner"
    using that by (auto simp: facts_from_def dest: in_set_takeD)
  show ?thesis
    using t [OF b] t [OF f] t [OF g]
    by (simp add: extract_behaviors_and_habits_def extract_frustrations_def
          extract_goals_and_needs_def)
qed

lemma credit_from: "item \<in> S \<Longrightarrow> set (sc_citations c) \<subseteq> S \<Longrightarrow> set (sc_citations (credit item c)) \<subseteq> S"
  by (simp add: credit_def)

lemma score_keyword_from:
  assumes "item \<in> S" "set (sc_citations c) \<subseteq> S"
  shows "set (sc_citations (score_keyword e item text c kw)) \<subseteq> S"
proof (cases "contains kw text")
  case False
  then show ?thesis using assms(2) by (simp add: score_keyword_def)
next
  case True
  have "set (sc_citations (foldl (\<lambda>c sentence.
                    if contains kw sentence \<and> float_lit (1 / 10) < polarity_pos e sentence
                    then credit item c else c) c (split_sentences text))) \<subseteq> S"
    by (rule foldl_invariant [where P = "\<lambda>c. set (sc_citations c) \<subseteq> S"])
       (use assms in \<open>simp_all add: credit_from\<close>)
  then show ?thesis using True by (simp add: score_keyword_def)
qed

lemma motivation_step_from:
  fixes cats :: "'m categories"
  assumes "item \<in> S" "\<forall>c. set (sc_citations (cats c)) \<subseteq> S"
  shows "\<forall>c. set (sc_citations (motivation_step e cats item c)) \<subseteq> S"
  unfolding motivation_step_def Let_def
proof (rule foldl_invariant [where P = "\<lambda>cats. \<forall>c. set (sc_citations (cats c)) \<subseteq> S"])
  show "\<forall>c. set (sc_citations (cats c)) \<subseteq> S" by (rule assms(2))
next
  fix s :: "'m categories" and x :: "string \<times> string list"
  assume s: "\<forall>c. set (sc_citations (s c)) \<subseteq> S"
  have "set (sc_citations (foldl (score_keyword e item (lower (ti_text item))) (s (fst x)) (snd x))) \<subseteq> S"
    by (rule foldl_invariant [where P = "\<lambda>c. set (sc_citations c) \<subseteq> S"])
       (use s assms(1) in \<open>auto dest: score_keyword_from\<close>)
  then show "\<forall>c. set (sc_citations ((case x of (category, keywords) \<Rightarrow>
                  s(category := foldl (score_keyword e item (lower (ti_text item))) (s category) keywords)) c)) \<subseteq> S"
    using s by (cases x) auto
qed

lemma motivations_from:
  "set (concat (map (\<lambda>m. sc_citations (snd m)) (extract_motivations e items))) \<subseteq> set items"
proof -
  have "\<forall>c. set (sc_citations (raw_motivations e items c)) \<subseteq> set items"
    unfolding raw_motivations_def
  proof (rule foldl_invariant [where P = "\<lambda>cats. \<forall>c. set (sc_citations (cats c)) \<subseteq> set items"])
    show "\<forall>c. set (sc_citations \<lparr>sc_score = 0, sc_citations = []\<rparr>) \<subseteq> set items" by simp
  next
    fix cats :: "'a categories" and item
    assume "\<forall>c. set (sc_citations (cats c)) \<subseteq> set items" "item \<in> set items"
    then show "\<forall>c. set (sc_citations (motivation_step e cats item c)) \<subseteq> set items"
      by (intro motivation_step_from)
  qed
  then show ?thesis
    by (auto simp: extract_motivations_def normalize_motivations_def dest: in_set_takeD)
qed

lemma cite_keyword_from: "set cs \<subseteq> set items \<Longrightarrow> set (cite_keyword items kw cs) \<subseteq> set items"
  unfolding cite_keyword_def
  by (rule foldl_invariant [where P = "\<lambda>cs. set cs \<subseteq> set items"]) auto

lemma count_trait_from:
  "set (snd st) \<subseteq> set items \<Longrightarrow> set (snd (count_trait items kws st)) \<subseteq> set items"
  unfolding count_trait_def
  by (rule foldl_invariant [where P = "\<lambda>st. set (snd st) \<subseteq> set items"])
     (auto dest: cite_keyword_from)

lemma dimension_from: "set (sc_citations (analyze_dimension items l r)) \<subseteq> set items"
proof -
  have "set (snd (count_trait items l (0, []))) \<subseteq> set items" by (rule count_trait_from) simp
  then have "set (snd (count_trait items r (0, snd (count_trait items l (0, []))))) \<subseteq> set items"
    by (intro count_trait_from) simp
  then show ?thesis by (auto simp: analyze_dimension_def Let_def dest: in_set_takeD)
qed

lemma persona_citations_from:
  "set (persona_citations ((build_persona e ui posts comments pf items)\<lparr>archetype := a\<rparr>)) \<subseteq> set items"
  using demographics_from [of items] miners_from [of e items] motivations_from [of e items]
    dimension_from [of items]
  by (simp add: persona_citations_def build_persona_def Let_def field_from_def
        analyze_personality_def)

lemma truncate_at_address: "text_item.truncate (at_address a v) = v"
  by (simp add: at_address_def text_item.truncate_def)

lemma allocate_items:
  assumes "allocate s vs = (items, s')" "c \<in> set items"
  shows "length s \<le> ti_addr c \<and> ti_addr c < length s' \<and> s' ! ti_addr c = ItemObj (text_item.truncate c)"
proof -
  from assms obtain k v where kv: "(k, v) \<in> set (enumerate (length s) vs)" "c = at_address k v"
    by (auto simp: allocate_def)
  then have k: "length s \<le> k" "k < length vs + length s" "vs ! (k - length s) = v"
    by (simp_all add: in_set_enumerate_eq)
  have s': "s' = s @ map ItemObj vs" using assms(1) by (simp add: allocate_def)
  have "ti_addr c = k" using kv(2) by (simp add: at_address_def)
  moreover have "s' ! k = ItemObj v" using k by (simp add: s' nth_append)
  ultimately show ?thesis using k by (simp add: s' kv(2) truncate_at_address)
qed

lemma allocate_frame: "allocate s vs = (items, s') \<Longrightarrow> take (length s) s' = s"
  by (auto simp: allocate_def)

lemma store2_read:
  "lookup store2 0 = DataObj \<lparr>ref_user_info = None, ref_posts = Some 1, ref_comments = Some 2\<rparr>
   \<and> read_info store2 None = Some no_user_info
   \<and> read_posts store2 (Some (Suc 0)) = Some [short_post]
   \<and> read_comments store2 (Some 2) = Some [short_comment]"
  by code_simp

lemma store2_frequency:
  "analyze_posting_frequency demo_env [short_post] [short_comment] =
     Inr \<lparr>activity_level = ''Unknown'', most_active_days = [], most_active_hours = []\<rparr>"
  by code_simp

lemma store2_allocate:
  "allocate store2 (all_text_items [short_post] [short_comment]) =
     ([at_address 5 (post_item short_post), at_address 6 (comment_item short_comment)],
      store2 @ [ItemObj (post_item short_post), ItemObj (comment_item short_comment)])"
  by (simp add: allocate_def all_text_items_def store2_def eval_nat_numeral)

lemma store2_age:
  "foldl (\<lambda>f item. age_step item f) no_field
     [at_address 5 (post_item short_post), at_address 6 (comment_item short_comment)]
   = \<lparr>df_value = Some 25, df_confidence = float_lit (9 / 10),
      df_citation = Some (at_address 5 (post_item short_post))\<rparr>"
  by code_simp

text \<open>
  Claim C10. \<open>analyze\<close> does not change its input: every object that was in the store
  before the call, so the dictionary \<open>user_data\<close>, its \<open>user_info\<close>, the lists of posts and
  comments and every post and comment in them, is the same after the call, whatever the
  call returns. The objects that the call adds are text items, and every citation of the
  returned persona refers to one of these new text items, never to an object of the input.
\<close>

theorem analyze_frame:
  assumes "analyze_in_store e s a = (r, s')"
  shows "take (length s) s' = s
         \<and> (\<forall>k. length s \<le> k \<and> k < length s' \<longrightarrow> (\<exists>v. s' ! k = ItemObj v))
         \<and> (\<forall>p. r = Inr p \<longrightarrow>
              (\<forall>c \<in> set (persona_citations p).
                 length s \<le> ti_addr c \<and> ti_addr c < length s'
                 \<and> s' ! ti_addr c = ItemObj (text_item.truncate c)))"
proof (cases "\<exists>p. r = Inr p")
  case False
  then have "s' = s"
    using assms
    by (auto simp: analyze_in_store_def Let_def split: obj.splits option.splits sum.splits prod.splits)
  then show ?thesis using False by auto
next
  case True
  then obtain p where r: "r = Inr p" by blast
  from assms r obtain d ui posts comments pf items where
    al: "allocate s (all_text_items posts comments) = (items, s')"
    and p: "p = (build_persona e ui posts comments pf items)
                  \<lparr>archetype := determine_archetype (build_persona e ui posts comments pf items)\<rparr>"
    by (auto simp: analyze_in_store_def Let_def split: obj.splits option.splits sum.splits prod.splits)
  have c: "set (persona_citations p) \<subseteq> set items"
    unfolding p by (rule persona_citations_from)
  have n: "\<exists>v. s' ! k = ItemObj v" if "length s \<le> k \<and> k < length s'" for k
    using al that by (auto simp: allocate_def nth_append)
  show ?thesis
    using allocate_frame [OF al] allocate_items [OF al] c n r by auto
qed

text \<open>
  On the store with one post and one comment the call returns a persona; the five objects
  of the input are unchanged, and the citation of the detected age is the text item at the
  new address 5.
\<close>

theorem analyze_frame_witness:
  "\<exists>p s'. analyze_in_store demo_env store2 0 = (Inr p, s')
      \<and> take 5 s' = store2
      \<and> field_citation (d_age (detected_demographics (basic p))) = [at_address 5 (post_item short_post)]
      \<and> ti_addr (at_address 5 (post_item short_post)) = 5
      \<and> s' ! 5 = ItemObj (post_item short_post)"
proof -
  let ?items = "[at_address 5 (post_item short_post), at_address 6 (comment_item short_comment)]"
  let ?pf = "\<lparr>activity_level = ''Unknown'', most_active_days = [], most_active_hours = []\<rparr>"
  let ?b = "build_persona demo_env no_user_info [short_post] [short_comment] ?pf ?items"
  let ?p = "?b\<lparr>archetype := determine_archetype ?b\<rparr>"
  let ?s = "store2 @ [ItemObj (post_item short_post), ItemObj (comment_item short_comment)]"
  have run: "analyze_in_store demo_env store2 0 = (Inr ?p, ?s)"
    by (simp add: analyze_in_store_def store2_read store2_frequency store2_allocate Let_def)
  have age: "field_citation (d_age (detected_demographics (basic ?p)))
               = [at_address 5 (post_item short_post)]"
    unfolding build_persona_def extract_demographics_def
    by (simp only: Let_def persona.simps basic_info.simps d_age_foldl demographics.simps
          store2_age field_citation_def dfield.simps option.case)
  then have "at_address 5 (post_item short_post) \<in> set (persona_citations ?p)"
    by (simp add: persona_citations_def Let_def)
  with analyze_frame [OF run]
  have "take (length store2) ?s = store2"
    and "?s ! ti_addr (at_address 5 (post_item short_post))
           = ItemObj (text_item.truncate (at_address 5 (post_item short_post)))"
    by blast+
  then have "take 5 ?s = store2" and "?s ! 5 = ItemObj (post_item short_post)"
    by (simp_all add: store2_def truncate_at_address at_address_def)
  then show ?thesis using run age by (simp add: at_address_def)
qed

end
